theory Spec2Isabelle
  imports Complex_Main
begin

section \<open>AgentNexusEscrow.sol: the escrow contract\<close>

text \<open>
  The contract is embedded as functions on an explicit state. Solidity's \<open>uint256\<close>,
  \<open>address\<close> and \<open>bytes32\<close> are natural numbers; \<open>address(0)\<close> is \<open>0\<close>. Solidity 0.8
  checks its arithmetic, so every \<open>+\<close>, \<open>-\<close> and \<open>*\<close> of the source that can leave
  \<open>uint256\<close> is a branch returning \<open>Panic\<close>. A transaction that reverts leaves no trace in
  storage: a call returns either an error (and no state) or the new state with the event
  it emitted.
\<close>

type_synonym address = nat
type_synonym bytes32 = nat
type_synonym uint256 = nat

definition UINT256_LIMIT :: nat where
  "UINT256_LIMIT = 2 ^ 256"

datatype PaymentStatus = Pending | Escrowed | Released | Refunded | Disputed

record Payment =
  user :: address
  developer :: address
  agentId :: uint256
  amount :: uint256
  token :: address
  status :: PaymentStatus
  createdAt :: uint256
  expiresAt :: uint256

datatype role = DEFAULT_ADMIN_ROLE | ORCHESTRATOR_ROLE | AGENT_DEVELOPER_ROLE

text \<open>
  The token contracts are external. They are modelled as the ledger of a plain ERC-20
  token, as the OpenZeppelin \<open>ERC20\<close> deployed by the repository's tests keeps it: one
  balance per token and holder, one allowance per token, owner and spender. A transfer
  fails when the balance (or, for \<open>transferFrom\<close>, the allowance) is short, and moves the
  amount otherwise; an allowance of \<open>2^256 - 1\<close> is not spent. Such a token never calls
  back into the escrow, so the \<open>nonReentrant\<close> guard of the contract never fires and is
  left out.
\<close>

record Ledger =
  balanceOf :: "address \<Rightarrow> address \<Rightarrow> uint256"
  allowance :: "address \<Rightarrow> address \<Rightarrow> address \<Rightarrow> uint256"

record Escrow =
  payments :: "bytes32 \<Rightarrow> Payment"
  agentDevelopers :: "uint256 \<Rightarrow> address"
  supportedTokens :: "address \<Rightarrow> bool"
  platformFeeRecipient :: address
  platformFeePercentage :: uint256
  roles :: "role \<Rightarrow> address \<Rightarrow> bool"
  self :: address
  tokens :: Ledger

text \<open>The caller and the block time of one transaction: \<open>msg.sender\<close>, \<open>block.timestamp\<close>.\<close>

record Msg =
  sender :: address
  timestamp :: uint256

datatype event =
    PaymentDeposited bytes32 address address uint256 uint256 address
  | PaymentReleased bytes32 address uint256 uint256
  | PaymentRefunded bytes32 address uint256
  | AgentRegistered uint256 address
  | PlatformFeeUpdated uint256
  | TokenSupportUpdated address bool

text \<open>
  \<open>Revert\<close> carries the message of the failed \<open>require\<close>; \<open>Panic\<close> is the arithmetic
  check of Solidity 0.8; \<open>AccessControlUnauthorizedAccount\<close> is the error of the \<open>onlyRole\<close>
  modifier; \<open>TransferFailed\<close> is a token transfer that did not go through.
\<close>

datatype error =
    Revert string
  | Panic
  | AccessControlUnauthorizedAccount address role
  | TransferFailed address

definition MAX_PLATFORM_FEE :: uint256 where
  "MAX_PLATFORM_FEE = 1000"

definition PAYMENT_EXPIRY :: uint256 where
  "PAYMENT_EXPIRY = 7 * 24 * 60 * 60"

definition hasRole :: "Escrow \<Rightarrow> role \<Rightarrow> address \<Rightarrow> bool" where
  "hasRole s r a = roles s r a"

subsection \<open>Token transfers\<close>

text \<open>\<open>move\<close> is the ledger update of a transfer that goes through: debit, then credit.\<close>

definition move :: "address \<Rightarrow> address \<Rightarrow> address \<Rightarrow> uint256 \<Rightarrow> Ledger \<Rightarrow> Ledger" where
  "move tok src dst v l =
     (let b = balanceOf l tok;
          b1 = b(src := b src - v);
          b2 = b1(dst := b1 dst + v)
      in l\<lparr>balanceOf := (balanceOf l)(tok := b2)\<rparr>)"

definition safeTransfer :: "Ledger \<Rightarrow> address \<Rightarrow> address \<Rightarrow> address \<Rightarrow> uint256 \<Rightarrow> error + Ledger" where
  "safeTransfer l tok src dst v =
     (if balanceOf l tok src < v then Inl (TransferFailed tok)
      else Inr (move tok src dst v l))"

definition spendAllowance :: "address \<Rightarrow> address \<Rightarrow> address \<Rightarrow> uint256 \<Rightarrow> Ledger \<Rightarrow> Ledger" where
  "spendAllowance tok owner spender v l =
     (if allowance l tok owner spender = UINT256_LIMIT - 1 then l
      else l\<lparr>allowance := (allowance l)
             (tok := (allowance l tok)
                (owner := (allowance l tok owner)
                   (spender := allowance l tok owner spender - v)))\<rparr>)"

definition safeTransferFrom ::
  "Ledger \<Rightarrow> address \<Rightarrow> address \<Rightarrow> address \<Rightarrow> address \<Rightarrow> uint256 \<Rightarrow> error + Ledger" where
  "safeTransferFrom l tok spender src dst v =
     (if allowance l tok src spender < v then Inl (TransferFailed tok)
      else if balanceOf l tok src < v then Inl (TransferFailed tok)
      else Inr (move tok src dst v (spendAllowance tok src spender v l)))"

subsection \<open>The constructor and the six external functions\<close>

definition zeroPayment :: Payment where
  "zeroPayment = \<lparr>user = 0, developer = 0, agentId = 0, amount = 0, token = 0,
     status = Pending, createdAt = 0, expiresAt = 0\<rparr>"

text \<open>
  The constructor, run by \<open>sender m\<close> for a contract deployed at address \<open>a\<close> over the
  token ledger \<open>l\<close>: fresh storage is all zeroes, and the deployer gets both roles.
\<close>

definition constructor :: "address \<Rightarrow> Ledger \<Rightarrow> Msg \<Rightarrow> address \<Rightarrow> uint256 \<Rightarrow> error + Escrow" where
  "constructor a l m feeRecipient feePercentage =
     (if feeRecipient = 0 then Inl (Revert ''Invalid fee recipient'')
      else if \<not> feePercentage \<le> MAX_PLATFORM_FEE then Inl (Revert ''Fee too high'')
      else Inr \<lparr>payments = (\<lambda>_. zeroPayment),
                agentDevelopers = (\<lambda>_. 0),
                supportedTokens = (\<lambda>_. False),
                platformFeeRecipient = feeRecipient,
                platformFeePercentage = feePercentage,
                roles = (\<lambda>r acct. (r = DEFAULT_ADMIN_ROLE \<or> r = ORCHESTRATOR_ROLE) \<and> acct = sender m),
                self = a,
                tokens = l\<rparr>)"

definition depositPayment ::
  "Escrow \<Rightarrow> Msg \<Rightarrow> bytes32 \<Rightarrow> uint256 \<Rightarrow> uint256 \<Rightarrow> address \<Rightarrow> error + Escrow \<times> event" where
  "depositPayment s m paymentId agent amt tok =
     (if \<not> supportedTokens s tok then Inl (Revert ''Token not supported'')
      else if \<not> user (payments s paymentId) = 0 then Inl (Revert ''Payment already exists'')
      else if \<not> agentDevelopers s agent \<noteq> 0 then Inl (Revert ''Agent not registered'')
      else if \<not> amt > 0 then Inl (Revert ''Amount must be positive'')
      else
        let dev = agentDevelopers s agent in
        case safeTransferFrom (tokens s) tok (self s) (sender m) (self s) amt of
          Inl e \<Rightarrow> Inl e
        | Inr l \<Rightarrow>
            if \<not> timestamp m + PAYMENT_EXPIRY < UINT256_LIMIT then Inl Panic
            else Inr (s\<lparr>tokens := l,
                        payments := (payments s)(paymentId :=
                          \<lparr>user = sender m, developer = dev, agentId = agent, amount = amt,
                           token = tok, status = Escrowed, createdAt = timestamp m,
                           expiresAt = timestamp m + PAYMENT_EXPIRY\<rparr>)\<rparr>,
                      PaymentDeposited paymentId (sender m) dev agent amt tok))"

definition releasePayment :: "Escrow \<Rightarrow> Msg \<Rightarrow> bytes32 \<Rightarrow> error + Escrow \<times> event" where
  "releasePayment s m paymentId =
     (if \<not> hasRole s ORCHESTRATOR_ROLE (sender m)
      then Inl (AccessControlUnauthorizedAccount (sender m) ORCHESTRATOR_ROLE)
      else
        let payment = payments s paymentId in
        if \<not> status payment = Escrowed then Inl (Revert ''Payment not in escrow'')
        else if \<not> timestamp m \<le> expiresAt payment then Inl (Revert ''Payment expired'')
        else if \<not> amount payment * platformFeePercentage s < UINT256_LIMIT then Inl Panic
        else
          let platformFee = (amount payment * platformFeePercentage s) div 10000 in
          if amount payment < platformFee then Inl Panic
          else
            let developerAmount = amount payment - platformFee in
            case safeTransfer (tokens s) (token payment) (self s) (developer payment) developerAmount of
              Inl e \<Rightarrow> Inl e
            | Inr l1 \<Rightarrow>
                (case (if platformFee > 0
                       then safeTransfer l1 (token payment) (self s) (platformFeeRecipient s) platformFee
                       else Inr l1) of
                   Inl e \<Rightarrow> Inl e
                 | Inr l2 \<Rightarrow>
                     Inr (s\<lparr>payments := (payments s)(paymentId := payment\<lparr>status := Released\<rparr>),
                            tokens := l2\<rparr>,
                          PaymentReleased paymentId (developer payment) developerAmount platformFee)))"

definition refundPayment :: "Escrow \<Rightarrow> Msg \<Rightarrow> bytes32 \<Rightarrow> error + Escrow \<times> event" where
  "refundPayment s m paymentId =
     (if \<not> hasRole s ORCHESTRATOR_ROLE (sender m)
      then Inl (AccessControlUnauthorizedAccount (sender m) ORCHESTRATOR_ROLE)
      else
        let payment = payments s paymentId in
        if \<not> status payment = Escrowed then Inl (Revert ''Payment not in escrow'')
        else
          case safeTransfer (tokens s) (token payment) (self s) (user payment) (amount payment) of
            Inl e \<Rightarrow> Inl e
          | Inr l \<Rightarrow>
              Inr (s\<lparr>payments := (payments s)(paymentId := payment\<lparr>status := Refunded\<rparr>),
                     tokens := l\<rparr>,
                   PaymentRefunded paymentId (user payment) (amount payment)))"

definition registerAgent :: "Escrow \<Rightarrow> Msg \<Rightarrow> uint256 \<Rightarrow> address \<Rightarrow> error + Escrow \<times> event" where
  "registerAgent s m agent dev =
     (if \<not> hasRole s DEFAULT_ADMIN_ROLE (sender m)
      then Inl (AccessControlUnauthorizedAccount (sender m) DEFAULT_ADMIN_ROLE)
      else if \<not> dev \<noteq> 0 then Inl (Revert ''Invalid developer address'')
      else Inr (s\<lparr>agentDevelopers := (agentDevelopers s)(agent := dev)\<rparr>,
                AgentRegistered agent dev))"

definition setSupportedToken :: "Escrow \<Rightarrow> Msg \<Rightarrow> address \<Rightarrow> bool \<Rightarrow> error + Escrow \<times> event" where
  "setSupportedToken s m tok supported =
     (if \<not> hasRole s DEFAULT_ADMIN_ROLE (sender m)
      then Inl (AccessControlUnauthorizedAccount (sender m) DEFAULT_ADMIN_ROLE)
      else Inr (s\<lparr>supportedTokens := (supportedTokens s)(tok := supported)\<rparr>,
                TokenSupportUpdated tok supported))"

definition setPlatformFee :: "Escrow \<Rightarrow> Msg \<Rightarrow> uint256 \<Rightarrow> error + Escrow \<times> event" where
  "setPlatformFee s m feePercentage =
     (if \<not> hasRole s DEFAULT_ADMIN_ROLE (sender m)
      then Inl (AccessControlUnauthorizedAccount (sender m) DEFAULT_ADMIN_ROLE)
      else if \<not> feePercentage \<le> MAX_PLATFORM_FEE then Inl (Revert ''Fee too high'')
      else Inr (s\<lparr>platformFeePercentage := feePercentage\<rparr>,
                PlatformFeeUpdated feePercentage))"

definition getPayment :: "Escrow \<Rightarrow> bytes32 \<Rightarrow> Payment" where
  "getPayment s paymentId = payments s paymentId"

subsection \<open>Sequences of transactions\<close>

text \<open>
  A transaction is a caller, a block time and one external call. A transaction that
  reverts changes nothing, so a sequence of transactions folds \<open>transact\<close> over the state.
\<close>

datatype call =
    DepositPayment bytes32 uint256 uint256 address
  | ReleasePayment bytes32
  | RefundPayment bytes32
  | RegisterAgent uint256 address
  | SetSupportedToken address bool
  | SetPlatformFee uint256

fun dispatch :: "Escrow \<Rightarrow> Msg \<Rightarrow> call \<Rightarrow> error + Escrow \<times> event" where
  "dispatch s m (DepositPayment paymentId agent amt tok) = depositPayment s m paymentId agent amt tok"
| "dispatch s m (ReleasePayment paymentId) = releasePayment s m paymentId"
| "dispatch s m (RefundPayment paymentId) = refundPayment s m paymentId"
| "dispatch s m (RegisterAgent agent dev) = registerAgent s m agent dev"
| "dispatch s m (SetSupportedToken tok supported) = setSupportedToken s m tok supported"
| "dispatch s m (SetPlatformFee feePercentage) = setPlatformFee s m feePercentage"

definition transact :: "Escrow \<Rightarrow> Msg \<times> call \<Rightarrow> Escrow" where
  "transact s mc = (case dispatch s (fst mc) (snd mc) of Inl _ \<Rightarrow> s | Inr (s', _) \<Rightarrow> s')"

definition run :: "Escrow \<Rightarrow> (Msg \<times> call) list \<Rightarrow> Escrow" where
  "run s cs = foldl transact s cs"

text \<open>What a call shows to an observer of the chain: the error, or the event.\<close>

definition emitted :: "error + Escrow \<times> event \<Rightarrow> error + event" where
  "emitted r = map_sum (\<lambda>e. e) snd r"

subsection \<open>The fixture of the contract's test suite\<close>

text \<open>
  The state that \<open>setUp\<close> of the Foundry tests builds: fee recipient \<open>0x1\<close>, user \<open>0x2\<close>,
  developer \<open>0x3\<close> of agent 1, orchestrator \<open>0x4\<close> (here also the deployer), a fee of
  250 basis points, one supported token, and a user who holds and has approved funds.
\<close>

definition usdc :: address where
  "usdc = 300"

definition fundedLedger :: Ledger where
  "fundedLedger = \<lparr>balanceOf = (\<lambda>tok holder. if tok = usdc \<and> holder = 2 then 1000000000 else 0),
                   allowance = (\<lambda>tok owner spender.
                      if tok = usdc \<and> owner = 2 \<and> spender = 200 then 100000000 else 0)\<rparr>"

definition setUp :: Escrow where
  "setUp = \<lparr>payments = (\<lambda>_. zeroPayment),
            agentDevelopers = (\<lambda>_. 0)(1 := 3),
            supportedTokens = (\<lambda>_. False)(usdc := True),
            platformFeeRecipient = 1,
            platformFeePercentage = 250,
            roles = (\<lambda>r acct. (r = DEFAULT_ADMIN_ROLE \<or> r = ORCHESTRATOR_ROLE) \<and> acct = 4),
            self = 200,
            tokens = fundedLedger\<rparr>"

definition asUser :: Msg where
  "asUser = \<lparr>sender = 2, timestamp = 1000\<rparr>"

definition asOrchestrator :: Msg where
  "asOrchestrator = \<lparr>sender = 4, timestamp = 2000\<rparr>"

text \<open>
  A payment is settled once it is \<open>Released\<close> or \<open>Refunded\<close>. The contract tells an
  existing payment from an empty slot by its \<open>user\<close> field, which a deposit sets to the
  (non-zero) caller.
\<close>

definition settled :: "Escrow \<Rightarrow> bytes32 \<Rightarrow> bool" where
  "settled s pid = ((status (payments s pid) = Released \<or> status (payments s pid) = Refunded)
       \<and> user (payments s pid) \<noteq> 0)"

text \<open>The fixture after the user has deposited 10000 units for agent 1 as payment 7.\<close>

definition afterDeposit :: Escrow where
  "afterDeposit = run setUp [(asUser, DepositPayment 7 1 10000 usdc)]"

section \<open>ReceiptService.ts: execution receipts\<close>

text \<open>
  A \<open>Date\<close> is its \<open>getTime()\<close>, the milliseconds since the epoch. The two library
  functions the service calls, the SHA-256 hex digest of Node's \<open>crypto\<close> and
  \<open>Date.prototype.toISOString\<close>, are parameters of the model.
\<close>

record Runtime =
  sha256_hex :: "string \<Rightarrow> string"
  toISOString :: "int \<Rightarrow> string"

record AgentRow =
  agent_id :: string
  agent_name :: string
  agent_version :: "string option"

record UserRow =
  walletAddress :: "string option"

text \<open>The decimal columns of a purchase are carried as their \<open>toString()\<close> renderings.\<close>

record PurchaseRow =
  purchase_paymentId :: "string option"
  purchase_amount :: "string option"
  purchase_tokenAddress :: "string option"
  purchase_platformFee :: "string option"

text \<open>A row of \<open>execution\<close> as \<open>findUnique\<close> returns it with agent, user and purchase included.\<close>

record Execution =
  exec_id :: string
  exec_userId :: string
  exec_agentId :: string
  exec_status :: string
  startTime :: int
  endTime :: "int option"
  duration :: "int option"
  errorMessage :: "string option"
  exec_agent :: AgentRow
  exec_user :: "UserRow option"
  exec_purchase :: "PurchaseRow option"
  containerId :: "string option"
  memoryPeakMb :: "int option"
  cpuTimeMs :: "int option"

datatype ReceiptStatus = SUCCESS | FAILED | TIMEOUT | CANCELLED

record ResourceUsage =
  ru_containerId :: "string option"
  ru_memoryPeakMb :: "int option"
  ru_cpuTimeMs :: "int option"

record ExecutionReceipt =
  receiptId :: string
  executionId :: string
  receipt_timestamp :: string
  completedAt :: string
  durationMs :: int
  receipt_agentId :: string
  agentName :: string
  agentVersion :: string
  receipt_userId :: string
  receipt_walletAddress :: "string option"
  receipt_paymentId :: "string option"
  receipt_amount :: "string option"
  receipt_token :: "string option"
  receipt_platformFee :: "string option"
  receipt_status :: ReceiptStatus
  receipt_errorMessage :: "string option"
  resourceUsage :: ResourceUsage

record ReceiptSummary =
  summary_receiptId :: string
  summary_executionId :: string
  summary_timestamp :: string
  summary_agentId :: string
  summary_agentName :: string
  summary_amount :: "string option"
  summary_status :: ReceiptStatus
  summary_durationMs :: int

text \<open>
  A JavaScript \<open>number\<close>: a finite value, \<open>NaN\<close> or one of the two infinities. The finite
  values are taken from the rationals, which hold every double; \<open>-0\<close> is \<open>0\<close>, which no
  operation used here tells apart.
\<close>

datatype js_number = Finite rat | NaN | PlusInfinity | MinusInfinity

text \<open>
  \<open>limit\<close> and \<open>offset\<close> are declared \<open>number\<close> and reach Prisma's \<open>take\<close> and \<open>skip\<close>
  without any check.
\<close>

record ReceiptQueryOptions =
  opt_userId :: "string option"
  opt_agentId :: "string option"
  opt_status :: "ReceiptStatus option"
  opt_startDate :: "int option"
  opt_endDate :: "int option"
  opt_limit :: "js_number option"
  opt_offset :: "js_number option"

text \<open>
  A rejected promise: an \<open>Error\<close> thrown by the service with its message, or the refusal
  of a query by the Prisma client.
\<close>

datatype js_error = Error string | PrismaError

subsection \<open>JavaScript's string and number conventions\<close>

text \<open>\<open>x || undefined\<close> on an optional string: the empty string is falsy.\<close>

definition truthy :: "string option \<Rightarrow> string option" where
  "truthy x = (case x of None \<Rightarrow> None | Some s \<Rightarrow> if s = [] then None else Some s)"

text \<open>\<open>n || d\<close> on an optional number: \<open>undefined\<close>, \<open>0\<close> and \<open>NaN\<close> are falsy.\<close>

definition falsy :: "js_number \<Rightarrow> bool" where
  "falsy n = (n = Finite 0 \<or> n = NaN)"

definition or_default :: "js_number option \<Rightarrow> js_number \<Rightarrow> js_number" where
  "or_default x d = (case x of None \<Rightarrow> d | Some n \<Rightarrow> if falsy n then d else n)"

text \<open>Unary minus.\<close>

definition negate :: "js_number \<Rightarrow> js_number" where
  "negate n = (case n of Finite q \<Rightarrow> Finite (- q) | NaN \<Rightarrow> NaN
                 | PlusInfinity \<Rightarrow> MinusInfinity | MinusInfinity \<Rightarrow> PlusInfinity)"

text \<open>\<open>Number.isInteger\<close>.\<close>

definition isInteger :: "js_number \<Rightarrow> bool" where
  "isInteger n = (case n of Finite q \<Rightarrow> of_int \<lfloor>q\<rfloor> = q | _ \<Rightarrow> False)"

text \<open>
  \<open>ToIntegerOrInfinity\<close> of the language specification: \<open>NaN\<close> becomes 0, a finite value
  is truncated towards zero, an infinity stays.
\<close>

datatype integer_or_infinity = Integer int | PositiveInfinity | NegativeInfinity

definition toIntegerOrInfinity :: "js_number \<Rightarrow> integer_or_infinity" where
  "toIntegerOrInfinity n =
     (case n of
        NaN \<Rightarrow> Integer 0
      | PlusInfinity \<Rightarrow> PositiveInfinity
      | MinusInfinity \<Rightarrow> NegativeInfinity
      | Finite q \<Rightarrow> Integer (if 0 \<le> q then \<lfloor>q\<rfloor> else - \<lfloor>- q\<rfloor>))"

text \<open>
  \<open>Array.prototype.slice(start)\<close> with one argument: a negative start counts from the
  end, and the start is clamped into the array.
\<close>

definition slice :: "'a list \<Rightarrow> js_number \<Rightarrow> 'a list" where
  "slice xs start =
     (let len = int (length xs);
          k = (case toIntegerOrInfinity start of
                 NegativeInfinity \<Rightarrow> 0
               | PositiveInfinity \<Rightarrow> len
               | Integer relativeStart \<Rightarrow>
                   if relativeStart < 0 then max (len + relativeStart) 0 else min relativeStart len)
      in drop (nat k) xs)"

text \<open>The decimal rendering of an integer, as a template literal prints a whole number.\<close>

definition digit_char :: "nat \<Rightarrow> char" where
  "digit_char d = ''0123456789'' ! d"

fun digits :: "nat \<Rightarrow> string" where
  "digits n = (if n < 10 then [digit_char n] else digits (n div 10) @ [digit_char (n mod 10)])"

declare digits.simps [simp del]

definition decimal :: "int \<Rightarrow> string" where
  "decimal i = (if i < 0 then CHR ''-'' # digits (nat (- i)) else digits (nat i))"

subsection \<open>The service\<close>

definition generateReceiptId :: "Runtime \<Rightarrow> Execution \<Rightarrow> string" where
  "generateReceiptId rt execution =
     (let data = exec_id execution @ '':'' @ decimal (startTime execution);
          hash = sha256_hex rt data
      in ''rcpt_'' @ take 16 hash)"

definition mapStatus :: "string \<Rightarrow> ReceiptStatus" where
  "mapStatus st =
     (if st = ''COMPLETED'' then SUCCESS
      else if st = ''FAILED'' then FAILED
      else if st = ''CANCELLED'' then CANCELLED
      else FAILED)"

definition unmapStatus :: "ReceiptStatus \<Rightarrow> string" where
  "unmapStatus st =
     (case st of SUCCESS \<Rightarrow> ''COMPLETED'' | FAILED \<Rightarrow> ''FAILED''
               | TIMEOUT \<Rightarrow> ''FAILED'' | CANCELLED \<Rightarrow> ''CANCELLED'')"

text \<open>\<open>prisma.execution.findUnique({ where: { id } })\<close> over the table as a list of rows.\<close>

definition findUnique :: "Execution list \<Rightarrow> string \<Rightarrow> Execution option" where
  "findUnique db executionId' = find (\<lambda>e. exec_id e = executionId') db"

text \<open>\<open>now\<close> is the value of \<open>new Date()\<close> at the call.\<close>

definition generateReceipt :: "Runtime \<Rightarrow> Execution list \<Rightarrow> int \<Rightarrow> string \<Rightarrow> js_error + ExecutionReceipt" where
  "generateReceipt rt db now executionId' =
     (case findUnique db executionId' of
        None \<Rightarrow> Inl (Error (''Execution not found: '' @ executionId'))
      | Some execution \<Rightarrow>
          if exec_status execution = ''PENDING'' \<or> exec_status execution = ''RUNNING''
          then Inl (Error (''Execution still in progress: '' @ exec_status execution))
          else Inr \<lparr>
            receiptId = generateReceiptId rt execution,
            executionId = exec_id execution,
            receipt_timestamp = toISOString rt (startTime execution),
            completedAt = toISOString rt (case endTime execution of None \<Rightarrow> now | Some t \<Rightarrow> t),
            durationMs = (case duration execution of None \<Rightarrow> 0 | Some d \<Rightarrow> d),
            receipt_agentId = agent_id (exec_agent execution),
            agentName = agent_name (exec_agent execution),
            agentVersion = (case truthy (agent_version (exec_agent execution)) of
                              None \<Rightarrow> ''1.0.0'' | Some v \<Rightarrow> v),
            receipt_userId = exec_userId execution,
            receipt_walletAddress = truthy (Option.bind (exec_user execution) walletAddress),
            receipt_paymentId = truthy (Option.bind (exec_purchase execution) purchase_paymentId),
            receipt_amount = truthy (Option.bind (exec_purchase execution) purchase_amount),
            receipt_token = truthy (Option.bind (exec_purchase execution) purchase_tokenAddress),
            receipt_platformFee = truthy (Option.bind (exec_purchase execution) purchase_platformFee),
            receipt_status = mapStatus (exec_status execution),
            receipt_errorMessage = truthy (errorMessage execution),
            resourceUsage = \<lparr>
              ru_containerId = map_option (take 12) (containerId execution),
              ru_memoryPeakMb = memoryPeakMb execution,
              ru_cpuTimeMs = cpuTimeMs execution\<rparr>\<rparr>)"

definition getReceiptSummary :: "Runtime \<Rightarrow> Execution list \<Rightarrow> int \<Rightarrow> string \<Rightarrow> js_error + ReceiptSummary" where
  "getReceiptSummary rt db now executionId' =
     (case generateReceipt rt db now executionId' of
        Inl e \<Rightarrow> Inl e
      | Inr receipt \<Rightarrow> Inr \<lparr>
          summary_receiptId = receiptId receipt,
          summary_executionId = executionId receipt,
          summary_timestamp = receipt_timestamp receipt,
          summary_agentId = receipt_agentId receipt,
          summary_agentName = agentName receipt,
          summary_amount = receipt_amount receipt,
          summary_status = receipt_status receipt,
          summary_durationMs = durationMs receipt\<rparr>)"

text \<open>
  The \<open>where\<close> object of \<open>listReceipts\<close>. The object literal handed to \<open>findMany\<close> spreads
  \<open>where\<close> and then sets \<open>status\<close> again, so the \<open>notIn\<close> filter replaces a status filter
  taken from the options.
\<close>

datatype StatusFilter = StatusIs string | StatusNotIn "string list"

record Where =
  where_userId :: "string option"
  where_agentId :: "string option"
  where_status :: "StatusFilter option"
  where_startTime_gte :: "int option"
  where_startTime_lte :: "int option"

definition matches :: "Where \<Rightarrow> Execution \<Rightarrow> bool" where
  "matches w e =
     ((case where_userId w of None \<Rightarrow> True | Some u \<Rightarrow> exec_userId e = u)
    \<and> (case where_agentId w of None \<Rightarrow> True | Some a \<Rightarrow> exec_agentId e = a)
    \<and> (case where_status w of None \<Rightarrow> True
          | Some (StatusIs st) \<Rightarrow> exec_status e = st
          | Some (StatusNotIn sts) \<Rightarrow> exec_status e \<notin> set sts)
    \<and> (case where_startTime_gte w of None \<Rightarrow> True | Some t \<Rightarrow> t \<le> startTime e)
    \<and> (case where_startTime_lte w of None \<Rightarrow> True | Some t \<Rightarrow> startTime e \<le> t))"

text \<open>
  \<open>findMany\<close> with \<open>orderBy: { startTime: 'desc' }\<close>, \<open>take\<close> and \<open>skip\<close>, as the Prisma
  client documents it. \<open>take\<close> and \<open>skip\<close> are integers and \<open>skip\<close> is not negative, or
  the client refuses the query. The matching rows are ordered latest start first; a
  \<open>take\<close> of \<open>n \<ge> 0\<close> leaves out the first \<open>skip\<close> rows and returns at most \<open>n\<close> of the
  rest; a negative \<open>take\<close> of \<open>-n\<close> does the same from the end of the ordered rows.
  The width of the client's integers is not modelled: every whole number is an integer
  here.
\<close>

definition findMany :: "Execution list \<Rightarrow> Where \<Rightarrow> js_number \<Rightarrow> js_number \<Rightarrow> js_error + Execution list" where
  "findMany db w tk sk =
     (if \<not> (isInteger tk \<and> isInteger sk) then Inl PrismaError
      else
        case (toIntegerOrInfinity tk, toIntegerOrInfinity sk) of
          (Integer t, Integer s) \<Rightarrow>
            if s < 0 then Inl PrismaError
            else
              let ordered = rev (sort_key startTime (filter (matches w) db)) in
              if 0 \<le> t then Inr (take (nat t) (drop (nat s) ordered))
              else Inr (rev (take (nat (- t)) (drop (nat s) (rev ordered))))
        | _ \<Rightarrow> Inl PrismaError)"

definition listWhere :: "ReceiptQueryOptions \<Rightarrow> Where" where
  "listWhere options =
     (let w = \<lparr>where_userId = truthy (opt_userId options),
               where_agentId = truthy (opt_agentId options),
               where_status = map_option (\<lambda>st. StatusIs (unmapStatus st)) (opt_status options),
               where_startTime_gte = opt_startDate options,
               where_startTime_lte = opt_endDate options\<rparr>
      in w\<lparr>where_status := Some (StatusNotIn [''PENDING'', ''RUNNING''])\<rparr>)"

definition listReceipts ::
  "Runtime \<Rightarrow> Execution list \<Rightarrow> ReceiptQueryOptions \<Rightarrow> js_error + ReceiptSummary list" where
  "listReceipts rt db options =
     (case findMany db (listWhere options) (or_default (opt_limit options) (Finite 50))
             (or_default (opt_offset options) (Finite 0)) of
        Inl e \<Rightarrow> Inl e
      | Inr executions \<Rightarrow>
          Inr (map (\<lambda>exec. \<lparr>
                 summary_receiptId = generateReceiptId rt exec,
                 summary_executionId = exec_id exec,
                 summary_timestamp = toISOString rt (startTime exec),
                 summary_agentId = agent_id (exec_agent exec),
                 summary_agentName = agent_name (exec_agent exec),
                 summary_amount = None,
                 summary_status = mapStatus (exec_status exec),
                 summary_durationMs = (case duration exec of None \<Rightarrow> 0 | Some d \<Rightarrow> d)\<rparr>)
               executions))"


section \<open>AuditLoggerService\<close>

datatype AuditEventType =
    COMPLIANCE_CHECK | GEOFENCE_BLOCK | GEOFENCE_ALLOW | KYC_REQUIRED | KYC_VERIFIED
  | CATEGORY_BLOCKED | CATEGORY_ALLOWED | EXECUTION_START | EXECUTION_END | EXECUTION_FAILED
  | AGENT_ACCESS | USER_ACTION | SECURITY_ALERT

datatype Severity = SeverityInfo | SeverityWarn | SeverityError | SeverityCritical

datatype Outcome = OutcomeAllowed | OutcomeBlocked | OutcomeError | OutcomePending

text \<open>
  An audit event; its \<open>timestamp\<close> is the instant its ISO string denotes. The free-form
  \<open>details\<close> and \<open>metadata\<close> objects, which no query reads, are left out.
\<close>

record AuditEvent =
  audit_id :: string
  audit_timestamp :: int
  audit_type :: AuditEventType
  audit_severity :: Severity
  audit_userId :: "string option"
  audit_agentId :: "string option"
  audit_executionId :: "string option"
  audit_country :: "string option"
  audit_category :: "string option"
  audit_action :: string
  audit_outcome :: Outcome

record AuditFilter =
  filter_startDate :: "int option"
  filter_endDate :: "int option"
  filter_type :: "AuditEventType list option"
  filter_userId :: "string option"
  filter_agentId :: "string option"
  filter_outcome :: "Outcome option"
  filter_severity :: "Severity option"
  filter_limit :: "js_number option"

text \<open>\<open>complianceConfig.auditLogging\<close>.\<close>

record AuditLogging =
  enabled :: bool
  retentionDays :: int

record AuditLoggerService =
  events :: "AuditEvent list"
  eventCounter :: nat

text \<open>
  \<open>log\<close>, for an event whose id and timestamp have been generated: the console line is
  written in every case and is not part of the state; the event is stored only when audit
  logging is enabled, and the store keeps the last 10000 events.
\<close>

definition log :: "AuditLogging \<Rightarrow> AuditLoggerService \<Rightarrow> AuditEvent \<Rightarrow> AuditLoggerService \<times> AuditEvent" where
  "log config svc fullEvent =
     (let counted = svc\<lparr>eventCounter := eventCounter svc + 1\<rparr> in
      if enabled config then
        let pushed = events counted @ [fullEvent] in
        (counted\<lparr>events := (if length pushed > 10000
                              then drop (length pushed - 10000) pushed else pushed)\<rparr>,
         fullEvent)
      else (counted, fullEvent))"

text \<open>One \<open>if (filter.x) results = results.filter(...)\<close> step of \<open>query\<close>.\<close>

definition narrow :: "'f option \<Rightarrow> ('f \<Rightarrow> AuditEvent \<Rightarrow> bool) \<Rightarrow> AuditEvent list \<Rightarrow> AuditEvent list" where
  "narrow x p results = (case x of None \<Rightarrow> results | Some v \<Rightarrow> filter (p v) results)"

text \<open>The filter steps of \<open>query\<close>, from the copy of the store to the last \<open>filter\<close>.\<close>

definition narrowed :: "AuditLoggerService \<Rightarrow> AuditFilter \<Rightarrow> AuditEvent list" where
  "narrowed svc flt =
       (let r0 = events svc;
            r1 = narrow (filter_startDate flt) (\<lambda>d e. d \<le> audit_timestamp e) r0;
            r2 = narrow (filter_endDate flt) (\<lambda>d e. audit_timestamp e \<le> d) r1;
            r3 = (case filter_type flt of
                    None \<Rightarrow> r2
                  | Some ts \<Rightarrow> if length ts = 0 then r2 else filter (\<lambda>e. audit_type e \<in> set ts) r2);
            r4 = narrow (truthy (filter_userId flt)) (\<lambda>u e. audit_userId e = Some u) r3;
            r5 = narrow (truthy (filter_agentId flt)) (\<lambda>a e. audit_agentId e = Some a) r4;
            r6 = narrow (filter_outcome flt) (\<lambda>out e. audit_outcome e = out) r5;
            r7 = narrow (filter_severity flt) (\<lambda>sev e. audit_severity e = sev) r6
        in r7)"

text \<open>
  \<open>query\<close>: nothing when audit logging is off; else the narrowed events, cut by
  \<open>results.slice(-limit)\<close> with \<open>limit = filter.limit || 100\<close>.
\<close>

definition query :: "AuditLogging \<Rightarrow> AuditLoggerService \<Rightarrow> AuditFilter \<Rightarrow> AuditEvent list" where
  "query config svc flt =
     (if \<not> enabled config then []
      else
        let results = narrowed svc flt;
            limit = or_default (filter_limit flt) (Finite 100)
        in slice results (negate limit))"

subsection \<open>A sample table\<close>

text \<open>
  A runtime whose digest is the identity (so that an id shows what was hashed) and whose
  ISO rendering is the decimal one; one finished execution; the empty query options.
\<close>

definition plainRuntime :: Runtime where
  "plainRuntime = \<lparr>sha256_hex = (\<lambda>s. s), toISOString = decimal\<rparr>"

definition sampleExecution :: Execution where
  "sampleExecution = \<lparr>exec_id = ''exec1'', exec_userId = ''u1'', exec_agentId = ''a1'',
     exec_status = ''COMPLETED'', startTime = 1000, endTime = Some 2000, duration = Some 1000,
     errorMessage = None,
     exec_agent = \<lparr>agent_id = ''a1'', agent_name = ''Agent One'', agent_version = None\<rparr>,
     exec_user = None, exec_purchase = None, containerId = None, memoryPeakMb = None,
     cpuTimeMs = None\<rparr>"

definition noOptions :: ReceiptQueryOptions where
  "noOptions = \<lparr>opt_userId = None, opt_agentId = None, opt_status = None, opt_startDate = None,
     opt_endDate = None, opt_limit = None, opt_offset = None\<rparr>"


definition sampleEvent :: AuditEvent where
  "sampleEvent = \<lparr>audit_id = ''audit_1'', audit_timestamp = 1000, audit_type = EXECUTION_END,
     audit_severity = SeverityInfo, audit_userId = Some ''u1'', audit_agentId = Some ''a1'',
     audit_executionId = Some ''exec1'', audit_country = None, audit_category = None,
     audit_action = ''execution_end'', audit_outcome = OutcomeAllowed\<rparr>"

definition noFilter :: AuditFilter where
  "noFilter = \<lparr>filter_startDate = None, filter_endDate = None, filter_type = None,
     filter_userId = None, filter_agentId = None, filter_outcome = None, filter_severity = None,
     filter_limit = None\<rparr>"

definition auditOn :: AuditLogging where
  "auditOn = \<lparr>enabled = True, retentionDays = 90\<rparr>"

section \<open>The pipeline orchestrator of the spec\<close>

text \<open>
  Modelled from the spec: the Pipeline Orchestrator (\<open>createPipeline\<close>, \<open>executePipeline\<close>,
  cancellation, the settlement pass) and the hold operations it calls are not among the
  sources; of pipelines the sources hold only the declaration of the table
  \<open>a2a_pipelines\<close> and the contract sketches of a design document. Every definition
  of this section follows the words of sections 3, 4.1, 4.2, 5 and 7 of the spec. Amounts
  are natural numbers in one denomination, so the spec's \<open>amount \<le> 0\<close> is
  \<open>amount = 0\<close>; the compliance collaborator is taken to allow every call.
\<close>


text \<open>Modelled from the spec: hold identifiers, caller-supplied for a single payment and
  pipeline-scoped (pipeline, position) for the hold of a step.\<close>

datatype hold_id = CallerHold nat | StepHold nat nat

text \<open>Modelled from the spec: the accounts whose balances release and refund credit.\<close>

datatype account = PlatformAccount | AgentAccount nat | PayerAccount nat

text \<open>Modelled from the spec: the Hold of section 3, with the fee snapshotted at deposit
  (section 4.1). Its status is the contract's \<open>PaymentStatus\<close>.\<close>

record Hold =
  hold_payer :: nat
  hold_agent :: nat
  hold_amount :: nat
  hold_feeBps :: nat
  hold_status :: PaymentStatus
  hold_createdAt :: nat
  hold_expiresAt :: nat

text \<open>Modelled from the spec: the status enums of section 3.\<close>

datatype PipelineStatus = Created | Executing | Completed | Failed | Cancelled

datatype StepStatus = StepPending | StepCompleted | StepFailed

text \<open>Modelled from the spec: the Step of section 3, with its cost.\<close>

record Step =
  step_position :: nat
  step_hold :: hold_id
  step_agent :: nat
  step_cost :: nat
  step_input :: string
  step_output :: "string option"
  step_status :: StepStatus

text \<open>Modelled from the spec: the Pipeline of section 3. \<open>pipeline_frozen\<close> marks a
  pipeline whose settlement pass was inconsistent (section 7).\<close>

record Pipeline =
  pipeline_payer :: nat
  pipeline_steps :: "Step list"
  revenueShare :: "(nat \<times> nat) list"
  totalCost :: nat
  pipeline_status :: PipelineStatus
  pipeline_frozen :: bool
  pipeline_createdAt :: nat
  pipeline_completedAt :: "nat option"

text \<open>Modelled from the spec: the Ledger Store with the registrations, the holds, the
  pipelines and the credited balances, and the platform fee in effect.\<close>

record Engine =
  agentRegistered :: "nat \<Rightarrow> bool"
  feeBps :: nat
  holdStore :: "hold_id \<Rightarrow> Hold option"
  pipelineStore :: "nat \<Rightarrow> Pipeline option"
  nextPipelineId :: nat
  credited :: "account \<Rightarrow> nat"


















text \<open>Modelled from the spec: the execution collaborator's verdict (section 6) and the
  three ways the sequential run of the steps can end (sections 4.2 and 5).\<close>

datatype verdict = Success string | Failure string | Timeout

datatype ending = AllSucceeded | StepHasFailed | WasCancelled

text \<open>Modelled from the spec: the steps run in position order; a success records the
  output and completes the step; the first failure or timeout halts the run; a
  cancellation takes effect before the step at the given position is dispatched.\<close>

fun runSteps :: "(Step \<Rightarrow> verdict) \<Rightarrow> nat option \<Rightarrow> Step list \<Rightarrow> Step list \<times> ending" where
  "runSteps exec cancelBefore [] = ([], AllSucceeded)"
| "runSteps exec cancelBefore (st # rest) =
     (if cancelBefore = Some (step_position st) then (st # rest, WasCancelled)
      else case exec st of
             Success out \<Rightarrow>
               (let (rest', e) = runSteps exec cancelBefore rest
                in (st\<lparr>step_output := Some out, step_status := StepCompleted\<rparr> # rest', e))
           | Failure _ \<Rightarrow> (st\<lparr>step_status := StepFailed\<rparr> # rest, StepHasFailed)
           | Timeout \<Rightarrow> (st\<lparr>step_status := StepFailed\<rparr> # rest, StepHasFailed))"







text \<open>Modelled from the spec: the atomicity guarantee of section 4.2 and the
  revenue-share invariant of section 3, as predicates on the engine's state.\<close>

definition holdIs :: "Engine \<Rightarrow> PaymentStatus \<Rightarrow> hold_id \<Rightarrow> bool" where
  "holdIs s st h = (case holdStore s h of None \<Rightarrow> False | Some held \<Rightarrow> hold_status held = st)"



text \<open>Modelled from the spec: the settlement of one pipeline is uniform (section 4.2): a
  completed pipeline has every step completed and every hold released, a failed or
  cancelled one has every hold refunded.\<close>

definition uniform :: "Engine \<Rightarrow> Pipeline \<Rightarrow> bool" where
  "uniform s p =
     ((pipeline_status p = Completed \<longrightarrow>
           list_all (\<lambda>st. step_status st = StepCompleted) (pipeline_steps p)
         \<and> list_all (\<lambda>st. holdIs s Released (step_hold st)) (pipeline_steps p))
      \<and> (pipeline_status p = Failed \<or> pipeline_status p = Cancelled \<longrightarrow>
           list_all (\<lambda>st. holdIs s Refunded (step_hold st)) (pipeline_steps p)))"














section \<open>Properties of the escrow contract\<close>

lemmas fixture_defs =
  setUp_def asUser_def asOrchestrator_def fundedLedger_def usdc_def zeroPayment_def

lemmas escrow_defs =
  depositPayment_def releasePayment_def refundPayment_def registerAgent_def setSupportedToken_def
  setPlatformFee_def hasRole_def safeTransfer_def safeTransferFrom_def move_def spendAllowance_def
  UINT256_LIMIT_def PAYMENT_EXPIRY_def MAX_PLATFORM_FEE_def

lemmas eval_defs = run_def transact_def emitted_def escrow_defs fixture_defs Let_def

lemma setUp_reached:
  "constructor 200 fundedLedger \<lparr>sender = 4, timestamp = 0\<rparr> 1 250 = Inr s0 \<Longrightarrow>
   run s0 [(asOrchestrator, RegisterAgent 1 3), (asOrchestrator, SetSupportedToken usdc True)] = setUp"
  by (auto simp: constructor_def run_def transact_def registerAgent_def setSupportedToken_def
        hasRole_def asOrchestrator_def setUp_def MAX_PLATFORM_FEE_def split: if_splits)

lemma move_zero: "move tok a b 0 l = l"
  by (simp add: move_def)

lemma release_result:
  assumes "releasePayment s m pid = Inr (s', ev)"
  shows "hasRole s ORCHESTRATOR_ROLE (sender m)
       \<and> status (payments s pid) = Escrowed
       \<and> timestamp m \<le> expiresAt (payments s pid)
       \<and> amount (payments s pid) * platformFeePercentage s div 10000 \<le> amount (payments s pid)
       \<and> ev = PaymentReleased pid (developer (payments s pid))
               (amount (payments s pid) - amount (payments s pid) * platformFeePercentage s div 10000)
               (amount (payments s pid) * platformFeePercentage s div 10000)
       \<and> s' = s\<lparr>payments := (payments s)(pid := (payments s pid)\<lparr>status := Released\<rparr>),
                tokens := move (token (payments s pid)) (self s) (platformFeeRecipient s)
                   (amount (payments s pid) * platformFeePercentage s div 10000)
                   (move (token (payments s pid)) (self s) (developer (payments s pid))
                      (amount (payments s pid) - amount (payments s pid) * platformFeePercentage s div 10000)
                      (tokens s))\<rparr>"
  using assms
  by (auto simp: releasePayment_def Let_def safeTransfer_def move_zero split: if_splits sum.splits)

lemma refund_result:
  assumes "refundPayment s m pid = Inr (s', ev)"
  shows "hasRole s ORCHESTRATOR_ROLE (sender m)
       \<and> status (payments s pid) = Escrowed
       \<and> ev = PaymentRefunded pid (user (payments s pid)) (amount (payments s pid))
       \<and> s' = s\<lparr>payments := (payments s)(pid := (payments s pid)\<lparr>status := Refunded\<rparr>),
                tokens := move (token (payments s pid)) (self s) (user (payments s pid))
                      (amount (payments s pid)) (tokens s)\<rparr>"
  using assms
  by (auto simp: refundPayment_def Let_def safeTransfer_def split: if_splits sum.splits)

lemma deposit_result:
  assumes "depositPayment s m pid agent amt tok = Inr (s', ev)"
  shows "supportedTokens s tok \<and> user (payments s pid) = 0 \<and> agentDevelopers s agent \<noteq> 0 \<and> 0 < amt
       \<and> amt \<le> allowance (tokens s) tok (sender m) (self s)
       \<and> amt \<le> balanceOf (tokens s) tok (sender m)
       \<and> ev = PaymentDeposited pid (sender m) (agentDevelopers s agent) agent amt tok
       \<and> s' = s\<lparr>tokens := move tok (sender m) (self s) amt
                            (spendAllowance tok (sender m) (self s) amt (tokens s)),
                payments := (payments s)(pid :=
                   \<lparr>user = sender m, developer = agentDevelopers s agent, agentId = agent,
                    amount = amt, token = tok, status = Escrowed, createdAt = timestamp m,
                    expiresAt = timestamp m + PAYMENT_EXPIRY\<rparr>)\<rparr>"
  using assms
  by (auto simp: depositPayment_def Let_def safeTransferFrom_def split: if_splits sum.splits)

lemma setPlatformFee_result:
  assumes "setPlatformFee s m f = Inr (s', ev)"
  shows "hasRole s DEFAULT_ADMIN_ROLE (sender m) \<and> f \<le> MAX_PLATFORM_FEE
       \<and> ev = PlatformFeeUpdated f \<and> s' = s\<lparr>platformFeePercentage := f\<rparr>"
  using assms by (auto simp: setPlatformFee_def split: if_splits)

lemma setSupportedToken_result:
  assumes "setSupportedToken s m tok b = Inr (s', ev)"
  shows "hasRole s DEFAULT_ADMIN_ROLE (sender m) \<and> ev = TokenSupportUpdated tok b
     \<and> s' = s\<lparr>supportedTokens := (supportedTokens s)(tok := b)\<rparr>"
  using assms by (auto simp: setSupportedToken_def split: if_splits)

text \<open>No transaction changes the record of a settled payment.\<close>

lemma transact_settled:
  assumes "settled s pid"
  shows "payments (transact s mc) pid = payments s pid"
proof (cases mc)
  case (Pair m c)
  show ?thesis
    using assms unfolding Pair
    by (cases c)
       (auto simp: transact_def settled_def depositPayment_def releasePayment_def refundPayment_def
          registerAgent_def setSupportedToken_def setPlatformFee_def Let_def
          split: if_splits sum.splits)
qed

lemma run_settled:
  "settled s pid \<Longrightarrow> payments (run s cs) pid = payments s pid"
proof (induction cs arbitrary: s)
  case Nil
  then show ?case by (simp add: run_def)
next
  case (Cons mc cs)
  have "settled (transact s mc) pid"
    using Cons.prems transact_settled [OF Cons.prems, of mc] by (simp add: settled_def)
  from Cons.IH [OF this] transact_settled [OF Cons.prems, of mc]
  show ?case by (simp add: run_def)
qed

lemma settled_release_fails:
  "settled s pid \<Longrightarrow> releasePayment s m pid =
     (if hasRole s ORCHESTRATOR_ROLE (sender m) then Inl (Revert ''Payment not in escrow'')
      else Inl (AccessControlUnauthorizedAccount (sender m) ORCHESTRATOR_ROLE))"
  by (auto simp: settled_def releasePayment_def Let_def)

lemma settled_refund_fails:
  "settled s pid \<Longrightarrow> refundPayment s m pid =
     (if hasRole s ORCHESTRATOR_ROLE (sender m) then Inl (Revert ''Payment not in escrow'')
      else Inl (AccessControlUnauthorizedAccount (sender m) ORCHESTRATOR_ROLE))"
  by (auto simp: settled_def refundPayment_def Let_def)

subsection \<open>The fee split of a release\<close>

text \<open>
  C3. A release that succeeds on a payment of amount \<open>A\<close> under a platform fee of \<open>f\<close>
  basis points emits \<open>PaymentReleased\<close> with the platform fee \<open>A * f div 10000\<close> (integer
  division, rounding down) and the developer amount \<open>A\<close> minus that fee; the two add up to
  \<open>A\<close> exactly; and the ledger after the call is the ledger before it with the developer
  amount moved from the escrow to the developer and the fee moved to the fee recipient.
\<close>

theorem release_splits_amount_exactly:
  assumes "releasePayment s m pid = Inr (s', ev)"
  shows "ev = PaymentReleased pid (developer (payments s pid))
               (amount (payments s pid) - amount (payments s pid) * platformFeePercentage s div 10000)
               (amount (payments s pid) * platformFeePercentage s div 10000)
       \<and> (amount (payments s pid) - amount (payments s pid) * platformFeePercentage s div 10000)
           + amount (payments s pid) * platformFeePercentage s div 10000 = amount (payments s pid)
       \<and> tokens s' = move (token (payments s pid)) (self s) (platformFeeRecipient s)
                   (amount (payments s pid) * platformFeePercentage s div 10000)
                   (move (token (payments s pid)) (self s) (developer (payments s pid))
                      (amount (payments s pid) - amount (payments s pid) * platformFeePercentage s div 10000)
                      (tokens s))
       \<and> payments s' pid = (payments s pid)\<lparr>status := Released\<rparr>"
  using release_result [OF assms] by simp

text \<open>
  The spec's scenario A: a payment of 10000 under 250 basis points pays 9750 to the
  developer and 250 to the platform, and leaves nothing in escrow.
\<close>

theorem release_splits_amount_exactly_witness:
  "\<exists>s'. releasePayment (run setUp [(asUser, DepositPayment 7 1 10000 usdc)]) asOrchestrator 7
        = Inr (s', PaymentReleased 7 3 9750 250)
      \<and> balanceOf (tokens s') usdc 3 = 9750 \<and> balanceOf (tokens s') usdc 1 = 250
      \<and> balanceOf (tokens s') usdc 200 = 0"
proof -
  let ?s = "run setUp [(asUser, DepositPayment 7 1 10000 usdc)]"
  have p: "payments ?s 7 = \<lparr>user = 2, developer = 3, agentId = 1, amount = 10000, token = usdc,
       status = Escrowed, createdAt = 1000, expiresAt = 605800\<rparr>"
    and f: "platformFeePercentage ?s = 250" "platformFeeRecipient ?s = 1" "self ?s = 200"
    and b: "balanceOf (tokens ?s) usdc 200 = 10000" "balanceOf (tokens ?s) usdc 3 = 0"
           "balanceOf (tokens ?s) usdc 1 = 0"
    by (simp_all add: run_def transact_def escrow_defs fixture_defs Let_def)
  have "\<exists>s' ev. releasePayment ?s asOrchestrator 7 = Inr (s', ev)"
    by (simp add: run_def transact_def escrow_defs fixture_defs Let_def)
  then obtain s' ev where r: "releasePayment ?s asOrchestrator 7 = Inr (s', ev)"
    by blast
  from release_splits_amount_exactly [OF r] r p f b show ?thesis
    by (simp add: move_def usdc_def)
qed

subsection \<open>The fee of a release is the fee at the time of the release\<close>

text \<open>
  C1 (as the spec states it) says that the fee of a release is the fee that was in effect
  when the payment was deposited. The \<open>Payment\<close> struct stores no fee, and
  \<open>releasePayment\<close> reads \<open>platformFeePercentage\<close> when it runs. In the fixture the fee
  is 250 basis points when payment 7 of 10000 is deposited; after \<open>setPlatformFee(500)\<close> the
  release pays a fee of 500, not the 250 of the deposit-time rate.
\<close>

theorem fee_snapshot_counterexample:
  "platformFeePercentage setUp = 250
   \<and> status (payments (run setUp [(asUser, DepositPayment 7 1 10000 usdc)]) 7) = Escrowed
   \<and> emitted (setPlatformFee (run setUp [(asUser, DepositPayment 7 1 10000 usdc)]) asOrchestrator 500)
       = Inr (PlatformFeeUpdated 500)
   \<and> emitted (releasePayment
        (run setUp [(asUser, DepositPayment 7 1 10000 usdc), (asOrchestrator, SetPlatformFee 500)])
        asOrchestrator 7) = Inr (PaymentReleased 7 3 9500 500)
   \<and> 10000 * 250 div 10000 \<noteq> (500 :: nat)"
  by (simp add: eval_defs)

text \<open>
  C1, amended. When a payment of \<open>amt\<close> is deposited, the fee is then set to \<open>f\<close> by
  \<open>setPlatformFee\<close>, and the payment is released, the release computes the fee from \<open>f\<close>:
  the platform gets \<open>amt * f div 10000\<close> and the developer the rest. The fee applied to a
  payment is the one in effect at its release.
\<close>

theorem release_applies_current_fee:
  assumes dep: "depositPayment s0 mu pid agent amt tok = Inr (s1, e1)"
    and fee: "setPlatformFee s1 ma f = Inr (s2, e2)"
    and rel: "releasePayment s2 mo pid = Inr (s3, e3)"
  shows "e3 = PaymentReleased pid (agentDevelopers s0 agent) (amt - amt * f div 10000) (amt * f div 10000)
       \<and> platformFeePercentage s2 = f
       \<and> tokens s3 = move tok (self s0) (platformFeeRecipient s0) (amt * f div 10000)
                       (move tok (self s0) (agentDevelopers s0 agent) (amt - amt * f div 10000) (tokens s1))"
  using release_result [OF rel] setPlatformFee_result [OF fee] deposit_result [OF dep]
  by simp

theorem release_applies_current_fee_witness:
  "\<exists>s1 e1 s2 e2 s3.
     depositPayment setUp asUser 7 1 10000 usdc = Inr (s1, e1)
   \<and> setPlatformFee s1 asOrchestrator 500 = Inr (s2, e2)
   \<and> releasePayment s2 asOrchestrator 7 = Inr (s3, PaymentReleased 7 3 9500 500)
   \<and> platformFeePercentage setUp = 250 \<and> platformFeePercentage s2 = 500"
proof -
  have "\<exists>s1 e1. depositPayment setUp asUser 7 1 10000 usdc = Inr (s1, e1)"
    by (simp add: eval_defs)
  then obtain s1 e1 where dep: "depositPayment setUp asUser 7 1 10000 usdc = Inr (s1, e1)"
    by blast
  note d = deposit_result [OF dep]
  have "\<exists>s2 e2. setPlatformFee s1 asOrchestrator 500 = Inr (s2, e2)"
    using d by (simp add: eval_defs)
  then obtain s2 e2 where fee: "setPlatformFee s1 asOrchestrator 500 = Inr (s2, e2)"
    by blast
  note f = setPlatformFee_result [OF fee]
  have "\<exists>s3 e3. releasePayment s2 asOrchestrator 7 = Inr (s3, e3)"
    using d f by (simp add: eval_defs)
  then obtain s3 e3 where rel: "releasePayment s2 asOrchestrator 7 = Inr (s3, e3)"
    by blast
  from release_applies_current_fee [OF dep fee rel] dep fee rel show ?thesis
    by (simp add: fixture_defs)
qed

subsection \<open>Settlement happens once\<close>

text \<open>
  C2 (as the spec states it) says that a release or refund of a settled payment fails with
  an error of its own, \<open>AlreadyTerminal\<close>, apart from the \<open>NotEscrowed\<close> of a payment that
  is not in escrow. The contract has one check, \<open>require(status == Escrowed)\<close>, and one
  message for it. After payment 7 is released, a second release and a refund fail with
  \<open>Payment not in escrow\<close>, exactly as they do on payment 8, which was never deposited and
  is \<open>Pending\<close>, not terminal.
\<close>

theorem already_terminal_counterexample:
  "status (payments (run afterDeposit [(asOrchestrator, ReleasePayment 7)]) 7) = Released
   \<and> status (payments (run afterDeposit [(asOrchestrator, ReleasePayment 7)]) 8) = Pending
   \<and> releasePayment (run afterDeposit [(asOrchestrator, ReleasePayment 7)]) asOrchestrator 7
        = Inl (Revert ''Payment not in escrow'')
   \<and> releasePayment (run afterDeposit [(asOrchestrator, ReleasePayment 7)]) asOrchestrator 8
        = Inl (Revert ''Payment not in escrow'')
   \<and> refundPayment (run afterDeposit [(asOrchestrator, ReleasePayment 7)]) asOrchestrator 7
        = refundPayment (run afterDeposit [(asOrchestrator, ReleasePayment 7)]) asOrchestrator 8"
  by (simp add: afterDeposit_def eval_defs)

text \<open>
  C2, amended. Once a release or a refund of a payment has succeeded (the payment having a
  non-zero payer, as every deposited payment has), then after any further sequence \<open>cs\<close>
  of transactions the payment's record is unchanged, it is \<open>Released\<close> or \<open>Refunded\<close>, and
  every release and every refund of it fails: with \<open>Payment not in escrow\<close> for a caller
  who holds the orchestrator role (with the access-control error otherwise). A failed call
  leaves the state, and so every balance, as it was.
\<close>

theorem settlement_exactly_once:
  assumes ok: "releasePayment s m pid = Inr (s', ev) \<or> refundPayment s m pid = Inr (s', ev)"
    and payer: "user (payments s pid) \<noteq> 0"
  shows "payments (run s' cs) pid = payments s' pid
     \<and> (status (payments s' pid) = Released \<or> status (payments s' pid) = Refunded)
     \<and> (\<exists>e. releasePayment (run s' cs) m' pid = Inl e)
     \<and> (\<exists>e. refundPayment (run s' cs) m' pid = Inl e)
     \<and> (hasRole (run s' cs) ORCHESTRATOR_ROLE (sender m') \<longrightarrow>
          releasePayment (run s' cs) m' pid = Inl (Revert ''Payment not in escrow'')
        \<and> refundPayment (run s' cs) m' pid = Inl (Revert ''Payment not in escrow''))
     \<and> transact (run s' cs) (m', ReleasePayment pid) = run s' cs
     \<and> transact (run s' cs) (m', RefundPayment pid) = run s' cs"
proof -
  have s': "settled s' pid"
    using ok payer by (auto simp: settled_def dest!: release_result refund_result)
  have frozen: "payments (run s' cs) pid = payments s' pid"
    by (rule run_settled [OF s'])
  then have later: "settled (run s' cs) pid"
    using s' by (simp add: settled_def)
  show ?thesis
    using frozen s' settled_release_fails [OF later, of m'] settled_refund_fails [OF later, of m']
    by (auto simp: settled_def transact_def)
qed

text \<open>
  Payment 7 is refunded; a later attempt to deposit under the same id changes nothing, and
  release and refund both fail.
\<close>

theorem settlement_exactly_once_witness:
  "\<exists>s' ev. refundPayment afterDeposit asOrchestrator 7 = Inr (s', ev)
     \<and> user (payments afterDeposit 7) = 2
     \<and> status (payments s' 7) = Refunded
     \<and> releasePayment (run s' [(asUser, DepositPayment 7 1 10000 usdc)]) asOrchestrator 7
          = Inl (Revert ''Payment not in escrow'')
     \<and> refundPayment (run s' [(asUser, DepositPayment 7 1 10000 usdc)]) asOrchestrator 7
          = Inl (Revert ''Payment not in escrow'')"
proof -
  have p: "user (payments afterDeposit 7) = 2"
    by (simp add: afterDeposit_def eval_defs)
  have "\<exists>s' ev. refundPayment afterDeposit asOrchestrator 7 = Inr (s', ev)"
    by (simp add: afterDeposit_def eval_defs)
  then obtain s' ev where r: "refundPayment afterDeposit asOrchestrator 7 = Inr (s', ev)"
    by blast
  have role: "hasRole (run s' [(asUser, DepositPayment 7 1 10000 usdc)]) ORCHESTRATOR_ROLE (sender asOrchestrator)"
    using refund_result [OF r]
    by (simp add: afterDeposit_def eval_defs)
  have st: "status (payments s' 7) = Refunded"
    using refund_result [OF r] by simp
  from settlement_exactly_once [of afterDeposit asOrchestrator 7 s' ev
         "[(asUser, DepositPayment 7 1 10000 usdc)]" asOrchestrator] r p role st
  show ?thesis by simp
qed

subsection \<open>Deposits\<close>

text \<open>
  C6 (as the spec states it) names three conditions for a deposit: an unused id, a
  registered agent and a positive amount. The contract checks the token first. With an
  unused id, a registered agent and a positive amount, a deposit in a token that is not
  supported fails; and with that token the three failures the spec names are all reported
  as \<open>Token not supported\<close> instead.
\<close>

theorem deposit_preconditions_counterexample:
  "user (payments setUp 9) = 0 \<and> agentDevelopers setUp 1 \<noteq> 0 \<and> (0::nat) < 500
   \<and> depositPayment setUp asUser 9 1 500 301 = Inl (Revert ''Token not supported'')
   \<and> user (payments afterDeposit 7) \<noteq> 0
   \<and> depositPayment afterDeposit asUser 7 1 500 301 \<noteq> Inl (Revert ''Payment already exists'')
   \<and> agentDevelopers setUp 5 = 0
   \<and> depositPayment setUp asUser 9 5 500 301 \<noteq> Inl (Revert ''Agent not registered'')
   \<and> depositPayment setUp asUser 9 1 0 301 \<noteq> Inl (Revert ''Amount must be positive'')"
  by (simp add: afterDeposit_def eval_defs)

text \<open>
  C6, amended. For a supported token: a deposit under an id that exists fails with
  \<open>Payment already exists\<close>; else for an unregistered agent with \<open>Agent not registered\<close>;
  else for the amount 0 with \<open>Amount must be positive\<close>; and else, when the caller holds
  and has approved the amount (and the expiry fits \<open>uint256\<close>), it succeeds: the payment is
  recorded as \<open>Escrowed\<close> with the caller as payer, created at the block time and expiring
  604800 seconds (7 days) later, no other payment changes, and the amount moves from the
  caller to the escrow. Every failure leaves the state as it was.
\<close>

theorem deposit_checks_then_escrows:
  assumes tok: "supportedTokens s tok"
  shows "(user (payments s pid) \<noteq> 0 \<longrightarrow>
            depositPayment s m pid agent amt tok = Inl (Revert ''Payment already exists''))
       \<and> (user (payments s pid) = 0 \<and> agentDevelopers s agent = 0 \<longrightarrow>
            depositPayment s m pid agent amt tok = Inl (Revert ''Agent not registered''))
       \<and> (user (payments s pid) = 0 \<and> agentDevelopers s agent \<noteq> 0 \<and> amt = 0 \<longrightarrow>
            depositPayment s m pid agent amt tok = Inl (Revert ''Amount must be positive''))
       \<and> (user (payments s pid) = 0 \<and> agentDevelopers s agent \<noteq> 0 \<and> 0 < amt
            \<and> amt \<le> allowance (tokens s) tok (sender m) (self s)
            \<and> amt \<le> balanceOf (tokens s) tok (sender m)
            \<and> timestamp m + PAYMENT_EXPIRY < UINT256_LIMIT \<longrightarrow>
            (\<exists>s'. depositPayment s m pid agent amt tok
                     = Inr (s', PaymentDeposited pid (sender m) (agentDevelopers s agent) agent amt tok)
                 \<and> payments s' pid =
                     \<lparr>user = sender m, developer = agentDevelopers s agent, agentId = agent,
                      amount = amt, token = tok, status = Escrowed, createdAt = timestamp m,
                      expiresAt = timestamp m + 604800\<rparr>
                 \<and> (\<forall>q. q \<noteq> pid \<longrightarrow> payments s' q = payments s q)
                 \<and> tokens s' = move tok (sender m) (self s) amt
                                  (spendAllowance tok (sender m) (self s) amt (tokens s))))
       \<and> (\<forall>e. depositPayment s m pid agent amt tok = Inl e \<longrightarrow>
            transact s (m, DepositPayment pid agent amt tok) = s)"
  using tok
  by (auto simp: depositPayment_def safeTransferFrom_def transact_def PAYMENT_EXPIRY_def Let_def)

theorem deposit_checks_then_escrows_witness:
  "supportedTokens setUp usdc
   \<and> status (payments (transact setUp (asUser, DepositPayment 7 1 10000 usdc)) 7) = Escrowed
   \<and> expiresAt (payments (transact setUp (asUser, DepositPayment 7 1 10000 usdc)) 7) = 1000 + 604800
   \<and> depositPayment afterDeposit asUser 7 1 10000 usdc = Inl (Revert ''Payment already exists'')
   \<and> depositPayment setUp asUser 7 5 10000 usdc = Inl (Revert ''Agent not registered'')
   \<and> depositPayment setUp asUser 7 1 0 usdc = Inl (Revert ''Amount must be positive'')"
proof -
  have t: "supportedTokens setUp usdc" "supportedTokens afterDeposit usdc"
    by (simp_all add: afterDeposit_def eval_defs)
  have h: "user (payments setUp 7) = 0" "agentDevelopers setUp 1 \<noteq> 0" "agentDevelopers setUp 5 = 0"
      "(10000::nat) \<le> allowance (tokens setUp) usdc (sender asUser) (self setUp)"
      "(10000::nat) \<le> balanceOf (tokens setUp) usdc (sender asUser)"
      "timestamp asUser + PAYMENT_EXPIRY < UINT256_LIMIT"
      "user (payments afterDeposit 7) \<noteq> 0"
    by (simp_all add: afterDeposit_def eval_defs)
  from deposit_checks_then_escrows [OF t(1), where pid = 7 and agent = 1 and amt = 10000 and m = asUser]
       deposit_checks_then_escrows [OF t(1), where pid = 7 and agent = 5 and amt = 10000 and m = asUser]
       deposit_checks_then_escrows [OF t(1), where pid = 7 and agent = 1 and amt = 0 and m = asUser]
       deposit_checks_then_escrows [OF t(2), where pid = 7 and agent = 1 and amt = 10000 and m = asUser] t h
  show ?thesis
    by (auto simp: transact_def asUser_def)
qed

text \<open>
  C10. A deposit in a token that is not on the supported-token list fails with
  \<open>Token not supported\<close>, whatever the id, the agent and the amount are, and leaves the
  state as it was; so does a deposit in a token after \<open>setSupportedToken\<close> has taken it off
  the list; and \<open>setSupportedToken\<close> succeeds only for a caller with the admin role.
\<close>

theorem unsupported_token_rejected:
  "(\<not> supportedTokens s tok \<longrightarrow>
      depositPayment s m pid agent amt tok = Inl (Revert ''Token not supported'')
    \<and> transact s (m, DepositPayment pid agent amt tok) = s)
   \<and> (setSupportedToken s ma tok False = Inr (s', ev) \<longrightarrow>
      depositPayment s' m pid agent amt tok = Inl (Revert ''Token not supported''))
   \<and> (\<forall>s1 e1. setSupportedToken s ma tok b = Inr (s1, e1) \<longrightarrow> hasRole s DEFAULT_ADMIN_ROLE (sender ma))"
  by (auto simp: depositPayment_def transact_def dest!: setSupportedToken_result)

theorem unsupported_token_rejected_witness:
  "\<not> supportedTokens setUp 999 \<and> user (payments setUp 8) = 0 \<and> agentDevelopers setUp 1 = 3
   \<and> balanceOf (tokens setUp) 999 2 = 0
   \<and> depositPayment setUp asUser 8 1 100 999 = Inl (Revert ''Token not supported'')
   \<and> (\<exists>s' ev. setSupportedToken setUp asOrchestrator usdc False = Inr (s', ev)
        \<and> depositPayment s' asUser 8 1 100 usdc = Inl (Revert ''Token not supported''))"
proof -
  have u: "\<not> supportedTokens setUp 999"
    by (simp add: fixture_defs)
  have "\<exists>s' ev. setSupportedToken setUp asOrchestrator usdc False = Inr (s', ev)"
    by (simp add: eval_defs)
  then obtain s' ev where t: "setSupportedToken setUp asOrchestrator usdc False = Inr (s', ev)"
    by blast
  from unsupported_token_rejected [of setUp 999 asUser 8 1 100 asOrchestrator s' ev]
       unsupported_token_rejected [of setUp usdc asUser 8 1 100 asOrchestrator s' ev] u t
  show ?thesis
    by (simp add: fixture_defs)
qed

subsection \<open>Refunds and expiry\<close>

text \<open>
  C7. For a payment in escrow whose amount the escrow holds, a refund called by the
  orchestrator succeeds at any block time, before or after the expiry: the payment becomes
  \<open>Refunded\<close> and its whole amount moves from the escrow to the payer, with no fee. A
  release called after the expiry fails with \<open>Payment expired\<close>.
\<close>

theorem refund_not_blocked_by_expiry:
  assumes "hasRole s ORCHESTRATOR_ROLE (sender m)"
    and "status (payments s pid) = Escrowed"
    and "amount (payments s pid) \<le> balanceOf (tokens s) (token (payments s pid)) (self s)"
  shows "refundPayment s m pid =
           Inr (s\<lparr>payments := (payments s)(pid := (payments s pid)\<lparr>status := Refunded\<rparr>),
                  tokens := move (token (payments s pid)) (self s) (user (payments s pid))
                               (amount (payments s pid)) (tokens s)\<rparr>,
                PaymentRefunded pid (user (payments s pid)) (amount (payments s pid)))
       \<and> (expiresAt (payments s pid) < timestamp m \<longrightarrow>
            releasePayment s m pid = Inl (Revert ''Payment expired''))"
  using assms
  by (simp add: refundPayment_def releasePayment_def safeTransfer_def Let_def)

text \<open>One second after the expiry of payment 7, release fails and refund returns the 10000.\<close>

theorem refund_not_blocked_by_expiry_witness:
  "expiresAt (payments afterDeposit 7) = 605800
   \<and> releasePayment afterDeposit \<lparr>sender = 4, timestamp = 605801\<rparr> 7 = Inl (Revert ''Payment expired'')
   \<and> emitted (refundPayment afterDeposit \<lparr>sender = 4, timestamp = 605801\<rparr> 7)
        = Inr (PaymentRefunded 7 2 10000)
   \<and> balanceOf (tokens (transact afterDeposit (\<lparr>sender = 4, timestamp = 605801\<rparr>, RefundPayment 7))) usdc 2
        = 1000000000
   \<and> balanceOf (tokens afterDeposit) usdc 2 = 999990000"
proof -
  let ?m = "\<lparr>sender = 4, timestamp = 605801\<rparr>"
  have h: "hasRole afterDeposit ORCHESTRATOR_ROLE (sender ?m)"
      "status (payments afterDeposit 7) = Escrowed"
      "amount (payments afterDeposit 7) \<le> balanceOf (tokens afterDeposit) (token (payments afterDeposit 7)) (self afterDeposit)"
    by (simp_all add: afterDeposit_def eval_defs)
  have v: "payments afterDeposit 7 = \<lparr>user = 2, developer = 3, agentId = 1, amount = 10000, token = usdc,
       status = Escrowed, createdAt = 1000, expiresAt = 605800\<rparr>"
     "self afterDeposit = 200" "balanceOf (tokens afterDeposit) usdc 2 = 999990000"
    by (simp_all add: afterDeposit_def eval_defs)
  from refund_not_blocked_by_expiry [OF h] v show ?thesis
    by (simp add: emitted_def transact_def move_def usdc_def Let_def)
qed

section \<open>Properties of the receipt and audit services\<close>

lemmas digits_numeral = digits.simps [of "numeral k" for k] digits.simps [of 0] digits.simps [of 1] digits.simps [of "Suc 0"]

lemmas decimal_defs = decimal_def digits_numeral digit_char_def


lemma find_distinct_key:
  "distinct (map f xs) \<Longrightarrow> e \<in> set xs \<Longrightarrow> find (\<lambda>x. f x = f e) xs = Some e"
  by (induction xs) (auto simp: rev_image_eqI)

lemma isInteger_whole:
  assumes "isInteger n"
  shows "\<exists>z. n = Finite (of_int z) \<and> toIntegerOrInfinity n = Integer z"
proof (cases n)
  case (Finite q)
  with assms have "of_int \<lfloor>q\<rfloor> = q"
    unfolding isInteger_def by (simp only: js_number.case)
  then have q: "q = of_int \<lfloor>q\<rfloor>"
    by (rule sym)
  have "toIntegerOrInfinity (Finite (of_int \<lfloor>q\<rfloor>)) = Integer \<lfloor>q\<rfloor>"
    by (simp add: toIntegerOrInfinity_def)
  with q Finite show ?thesis by metis
qed (use assms in \<open>simp_all add: isInteger_def\<close>)

lemma whole_isInteger [simp]:
  "isInteger (Finite (of_int z))" "toIntegerOrInfinity (Finite (of_int z)) = Integer z"
  by (simp_all add: isInteger_def toIntegerOrInfinity_def)

lemma findMany_whole:
  assumes "0 \<le> s"
  shows "findMany db w (Finite (of_int t)) (Finite (of_int s)) =
     (let ordered = rev (sort_key startTime (filter (matches w) db)) in
      if 0 \<le> t then Inr (take (nat t) (drop (nat s) ordered))
      else Inr (rev (take (nat (- t)) (drop (nat s) (rev ordered)))))"
  using assms by (simp add: findMany_def Let_def)

lemma findMany_Inr:
  assumes "findMany db w tk sk = Inr rows"
  shows "\<exists>t s. tk = Finite (of_int t) \<and> sk = Finite (of_int s) \<and> 0 \<le> s
           \<and> set rows \<subseteq> set db \<and> length rows \<le> nat \<bar>t\<bar>"
proof -
  from assms have i: "isInteger tk" "isInteger sk"
    by (auto simp: findMany_def split: if_splits)
  from isInteger_whole [OF i(1)] isInteger_whole [OF i(2)]
  obtain t s where ts: "tk = Finite (of_int t)" "sk = Finite (of_int s)"
    by blast
  from assms have s: "0 \<le> s"
    unfolding ts by (auto simp: findMany_def split: if_splits)
  let ?ordered = "rev (sort_key startTime (filter (matches w) db))"
  have rows: "rows = (if 0 \<le> t then take (nat t) (drop (nat s) ?ordered)
                    else rev (take (nat (- t)) (drop (nat s) (rev ?ordered))))"
    using assms unfolding ts findMany_whole [OF s] Let_def by (simp split: if_splits)
  have "set rows \<subseteq> set ?ordered"
    unfolding rows
    by (auto dest!: in_set_takeD in_set_dropD)
  then have "set rows \<subseteq> set db"
    by auto
  moreover have "length rows \<le> nat \<bar>t\<bar>"
    unfolding rows by simp
  ultimately show ?thesis
    using ts s by blast
qed

lemma listReceipts_Inr:
  assumes "listReceipts rt db opts = Inr sms"
  shows "\<exists>rows. findMany db (listWhere opts) (or_default (opt_limit opts) (Finite 50))
                  (or_default (opt_offset opts) (Finite 0)) = Inr rows
          \<and> sms = map (\<lambda>exec. \<lparr>
                 summary_receiptId = generateReceiptId rt exec,
                 summary_executionId = exec_id exec,
                 summary_timestamp = toISOString rt (startTime exec),
                 summary_agentId = agent_id (exec_agent exec),
                 summary_agentName = agent_name (exec_agent exec),
                 summary_amount = None,
                 summary_status = mapStatus (exec_status exec),
                 summary_durationMs = (case duration exec of None \<Rightarrow> 0 | Some d \<Rightarrow> d)\<rparr>) rows"
  using assms by (auto simp: listReceipts_def split: sum.splits)

lemma generateReceipt_id:
  "generateReceipt rt db now i = Inr r \<Longrightarrow>
     \<exists>e. findUnique db i = Some e \<and> receiptId r = generateReceiptId rt e"
  by (auto simp: generateReceipt_def split: option.splits if_splits)

text \<open>
  C8, amended. A receipt id is \<open>rcpt_\<close> followed by the first 16 characters of the
  SHA-256 hex digest of the execution id, a colon and the start time in milliseconds. It is
  a function of the stored execution's id and start time alone: two rows that agree on
  both get the same id; two calls of \<open>generateReceipt\<close> on the same table give the same
  id, whenever they run; and the id that \<open>listReceipts\<close> shows for an execution is the id
  that \<open>generateReceipt\<close> gives for it (ids being unique in the table).
\<close>

theorem receipt_id_deterministic:
  "generateReceiptId rt e = ''rcpt_'' @ take 16 (sha256_hex rt (exec_id e @ '':'' @ decimal (startTime e)))
   \<and> (exec_id e' = exec_id e \<and> startTime e' = startTime e \<longrightarrow>
        generateReceiptId rt e' = generateReceiptId rt e)
   \<and> (generateReceipt rt db now1 i = Inr r1 \<and> generateReceipt rt db now2 i = Inr r2 \<longrightarrow>
        receiptId r1 = receiptId r2)
   \<and> (distinct (map exec_id db) \<and> listReceipts rt db opts = Inr sms \<and> sm \<in> set sms
        \<and> generateReceipt rt db now (summary_executionId sm) = Inr r \<longrightarrow>
        receiptId r = summary_receiptId sm)"
proof -
  have a: "generateReceiptId rt e = ''rcpt_'' @ take 16 (sha256_hex rt (exec_id e @ '':'' @ decimal (startTime e)))"
    by (simp add: generateReceiptId_def)
  have b: "exec_id e' = exec_id e \<and> startTime e' = startTime e \<longrightarrow>
        generateReceiptId rt e' = generateReceiptId rt e"
    by (simp add: generateReceiptId_def)
  have c: "generateReceipt rt db now1 i = Inr r1 \<and> generateReceipt rt db now2 i = Inr r2 \<longrightarrow>
        receiptId r1 = receiptId r2"
    by (auto dest!: generateReceipt_id)
  have d: "receiptId r = summary_receiptId sm"
    if dist: "distinct (map exec_id db)" and l: "listReceipts rt db opts = Inr sms"
      and sm: "sm \<in> set sms"
      and g: "generateReceipt rt db now (summary_executionId sm) = Inr r"
  proof -
    from listReceipts_Inr [OF l] obtain rows where
        rows: "findMany db (listWhere opts) (or_default (opt_limit opts) (Finite 50))
                  (or_default (opt_offset opts) (Finite 0)) = Inr rows"
        and sms: "sms = map (\<lambda>exec. \<lparr>
                 summary_receiptId = generateReceiptId rt exec,
                 summary_executionId = exec_id exec,
                 summary_timestamp = toISOString rt (startTime exec),
                 summary_agentId = agent_id (exec_agent exec),
                 summary_agentName = agent_name (exec_agent exec),
                 summary_amount = None,
                 summary_status = mapStatus (exec_status exec),
                 summary_durationMs = (case duration exec of None \<Rightarrow> 0 | Some d \<Rightarrow> d)\<rparr>) rows"
      by blast
    from findMany_Inr [OF rows] have sub: "set rows \<subseteq> set db"
      by blast
    from sm sms sub obtain x where x: "x \<in> set db" "summary_receiptId sm = generateReceiptId rt x"
        "summary_executionId sm = exec_id x"
      by auto
    from find_distinct_key [OF dist x(1)] have "findUnique db (exec_id x) = Some x"
      by (simp add: findUnique_def)
    with generateReceipt_id [OF g] x show ?thesis by simp
  qed
  from a b c d show ?thesis by blast
qed

lemmas number_defs =
  or_default_def falsy_def negate_def isInteger_def toIntegerOrInfinity_def slice_def

text \<open>
  The sample execution, still without an end time, asked for at two different moments: the
  \<open>completedAt\<close> of the two receipts differs, the receipt id does not.
\<close>

theorem receipt_id_deterministic_witness:
  "generateReceiptId plainRuntime sampleExecution = ''rcpt_exec1:1000''
   \<and> generateReceiptId plainRuntime (sampleExecution\<lparr>endTime := None, exec_status := ''FAILED''\<rparr>)
       = ''rcpt_exec1:1000''
   \<and> map_sum (\<lambda>e. e) receiptId (generateReceipt plainRuntime [sampleExecution\<lparr>endTime := None\<rparr>] 5000 ''exec1'')
       = Inr ''rcpt_exec1:1000''
   \<and> map_sum (\<lambda>e. e) receiptId (generateReceipt plainRuntime [sampleExecution\<lparr>endTime := None\<rparr>] 9000 ''exec1'')
       = Inr ''rcpt_exec1:1000''
   \<and> map_sum (\<lambda>e. e) completedAt (generateReceipt plainRuntime [sampleExecution\<lparr>endTime := None\<rparr>] 5000 ''exec1'')
       = Inr ''5000''
   \<and> map_sum (\<lambda>e. e) completedAt (generateReceipt plainRuntime [sampleExecution\<lparr>endTime := None\<rparr>] 9000 ''exec1'')
       = Inr ''9000''
   \<and> map_sum (\<lambda>e. e) (map summary_receiptId) (listReceipts plainRuntime [sampleExecution] noOptions)
       = Inr [''rcpt_exec1:1000'']"
proof -
  have e: "exec_id (sampleExecution\<lparr>endTime := None, exec_status := ''FAILED''\<rparr>) = exec_id sampleExecution
      \<and> startTime (sampleExecution\<lparr>endTime := None, exec_status := ''FAILED''\<rparr>) = startTime sampleExecution"
    by simp
  have v: "generateReceiptId plainRuntime sampleExecution = ''rcpt_exec1:1000''"
    using receipt_id_deterministic [THEN conjunct1, of plainRuntime sampleExecution]
    by (simp add: plainRuntime_def sampleExecution_def decimal_defs)
  have w: "generateReceiptId plainRuntime (sampleExecution\<lparr>endTime := None, exec_status := ''FAILED''\<rparr>)
       = generateReceiptId plainRuntime sampleExecution"
    using receipt_id_deterministic [of plainRuntime sampleExecution
       "sampleExecution\<lparr>endTime := None, exec_status := ''FAILED''\<rparr>"] e by blast
  have g: "map_sum (\<lambda>e. e) receiptId (generateReceipt plainRuntime [sampleExecution\<lparr>endTime := None\<rparr>] 5000 ''exec1'')
       = Inr ''rcpt_exec1:1000''"
     "map_sum (\<lambda>e. e) receiptId (generateReceipt plainRuntime [sampleExecution\<lparr>endTime := None\<rparr>] 9000 ''exec1'')
       = Inr ''rcpt_exec1:1000''"
     "map_sum (\<lambda>e. e) completedAt (generateReceipt plainRuntime [sampleExecution\<lparr>endTime := None\<rparr>] 5000 ''exec1'')
       = Inr ''5000''"
     "map_sum (\<lambda>e. e) completedAt (generateReceipt plainRuntime [sampleExecution\<lparr>endTime := None\<rparr>] 9000 ''exec1'')
       = Inr ''9000''"
    by (simp_all add: generateReceipt_def findUnique_def generateReceiptId_def plainRuntime_def
          sampleExecution_def decimal_defs truthy_def mapStatus_def)
  have l: "map_sum (\<lambda>e. e) (map summary_receiptId) (listReceipts plainRuntime [sampleExecution] noOptions)
       = Inr [''rcpt_exec1:1000'']"
    by (simp add: listReceipts_def findMany_def listWhere_def matches_def noOptions_def number_defs
          truthy_def generateReceiptId_def plainRuntime_def sampleExecution_def decimal_defs)
  from v w g l show ?thesis
    by simp
qed

text \<open>
  C8 (as the spec states it) derives the id from the identifier and the terminal timestamp.
  The id does not read the end time: changing \<open>endTime\<close> leaves it as it was, while
  changing \<open>startTime\<close> alone (same id, same end time) changes it. So it is not a function
  of the identifier and the terminal timestamp.
\<close>

theorem receipt_id_terminal_timestamp_counterexample:
  "generateReceiptId plainRuntime (sampleExecution\<lparr>endTime := Some 9000\<rparr>)
     = generateReceiptId plainRuntime (sampleExecution\<lparr>endTime := Some 2000\<rparr>)
   \<and> generateReceiptId plainRuntime (sampleExecution\<lparr>startTime := 1001\<rparr>)
     \<noteq> generateReceiptId plainRuntime (sampleExecution\<lparr>startTime := 1000\<rparr>)
   \<and> \<not> (\<exists>F. \<forall>e. generateReceiptId plainRuntime e = F (exec_id e) (endTime e))"
proof -
  have a: "generateReceiptId plainRuntime (sampleExecution\<lparr>endTime := Some 9000\<rparr>)
     = generateReceiptId plainRuntime (sampleExecution\<lparr>endTime := Some 2000\<rparr>)"
    by (simp add: generateReceiptId_def)
  have b: "generateReceiptId plainRuntime (sampleExecution\<lparr>startTime := 1001\<rparr>)
     \<noteq> generateReceiptId plainRuntime (sampleExecution\<lparr>startTime := 1000\<rparr>)"
    by (simp add: generateReceiptId_def plainRuntime_def sampleExecution_def decimal_defs)
  have c: "\<not> (\<exists>F. \<forall>e. generateReceiptId plainRuntime e = F (exec_id e) (endTime e))"
  proof
    assume "\<exists>F. \<forall>e. generateReceiptId plainRuntime e = F (exec_id e) (endTime e)"
    then obtain F where F: "\<And>e. generateReceiptId plainRuntime e = F (exec_id e) (endTime e)"
      by blast
    have "generateReceiptId plainRuntime (sampleExecution\<lparr>startTime := 1001\<rparr>)
        = generateReceiptId plainRuntime (sampleExecution\<lparr>startTime := 1000\<rparr>)"
      by (simp add: F)
    with b show False by simp
  qed
  from a b c show ?thesis by blast
qed

lemma length_narrow: "length (narrow x p xs) \<le> length xs"
  by (simp add: narrow_def split: option.splits)

lemma length_narrowed: "length (narrowed svc flt) \<le> length (events svc)"
proof -
  let ?r1 = "narrow (filter_startDate flt) (\<lambda>d e. d \<le> audit_timestamp e) (events svc)"
  let ?r2 = "narrow (filter_endDate flt) (\<lambda>d e. audit_timestamp e \<le> d) ?r1"
  let ?r3 = "(case filter_type flt of None \<Rightarrow> ?r2
              | Some ts \<Rightarrow> if length ts = 0 then ?r2 else filter (\<lambda>e. audit_type e \<in> set ts) ?r2)"
  let ?r4 = "narrow (truthy (filter_userId flt)) (\<lambda>u e. audit_userId e = Some u) ?r3"
  let ?r5 = "narrow (truthy (filter_agentId flt)) (\<lambda>a e. audit_agentId e = Some a) ?r4"
  let ?r6 = "narrow (filter_outcome flt) (\<lambda>out e. audit_outcome e = out) ?r5"
  let ?r7 = "narrow (filter_severity flt) (\<lambda>sev e. audit_severity e = sev) ?r6"
  have "length ?r3 \<le> length ?r2"
    by (simp split: option.splits)
  then have "length ?r7 \<le> length (events svc)"
    using length_narrow [of "filter_startDate flt" _ "events svc"]
      length_narrow [of "filter_endDate flt" _ ?r1]
      length_narrow [of "truthy (filter_userId flt)" _ ?r3]
      length_narrow [of "truthy (filter_agentId flt)" _ ?r4]
      length_narrow [of "filter_outcome flt" _ ?r5]
      length_narrow [of "filter_severity flt" _ ?r6]
    by (meson order_trans)
  then show ?thesis
    by (simp add: narrowed_def Let_def)
qed

lemma length_slice: "length (slice xs start) \<le> length xs"
  by (simp add: slice_def Let_def)

text \<open>A limit of at least 1 keeps the last \<open>\<lfloor>limit\<rfloor>\<close> elements.\<close>

lemma slice_last:
  assumes "1 \<le> q"
  shows "slice xs (negate (Finite q)) = drop (length xs - nat \<lfloor>q\<rfloor>) xs"
proof -
  have f: "1 \<le> \<lfloor>q\<rfloor>"
    using assms by (simp add: le_floor_iff)
  have "toIntegerOrInfinity (negate (Finite q)) = Integer (- \<lfloor>q\<rfloor>)"
    using assms by (simp add: toIntegerOrInfinity_def negate_def)
  moreover have "nat (max (int (length xs) + - \<lfloor>q\<rfloor>) 0) = length xs - nat \<lfloor>q\<rfloor>"
    using f by (simp add: max_def nat_diff_distrib')
  ultimately show ?thesis
    using f by (simp add: slice_def Let_def)
qed

text \<open>A negative whole limit drops that many elements from the front.\<close>

lemma slice_negative:
  assumes "k < 0"
  shows "slice xs (negate (Finite (of_int k))) = drop (nat (- k)) xs"
proof -
  have "toIntegerOrInfinity (negate (Finite (of_int k))) = Integer (- k)"
    using assms by (simp add: toIntegerOrInfinity_def negate_def)
  moreover have "drop (nat (min (- k) (int (length xs)))) xs = drop (nat (- k)) xs"
    by (cases "- k \<le> int (length xs)") (simp_all add: min_def)
  ultimately show ?thesis
    using assms by (simp add: slice_def Let_def)
qed

text \<open>A limit strictly between 0 and 1 cuts nothing.\<close>

lemma slice_fraction:
  assumes "0 < q" "q < 1"
  shows "slice xs (negate (Finite q)) = xs"
proof -
  have "\<lfloor>q\<rfloor> = 0"
    using assms by (simp add: floor_eq_iff)
  then have "toIntegerOrInfinity (negate (Finite q)) = Integer 0"
    using assms by (simp add: toIntegerOrInfinity_def negate_def)
  then show ?thesis
    by (simp add: slice_def Let_def)
qed

lemma query_enabled:
  "enabled config \<Longrightarrow>
     query config svc flt = slice (narrowed svc flt) (negate (or_default (filter_limit flt) (Finite 100)))"
  by (simp add: query_def Let_def)

lemma length_query_events:
  "length (query config svc flt) \<le> length (events svc)"
proof (cases "enabled config")
  case False
  then show ?thesis by (simp add: query_def)
next
  case True
  from length_slice [of "narrowed svc flt"] length_narrowed [of svc flt] show ?thesis
    unfolding query_enabled [OF True] by (meson order_trans)
qed

lemma length_query_last:
  assumes "or_default (filter_limit flt) (Finite 100) = Finite q" "1 \<le> q"
  shows "length (query config svc flt) \<le> nat \<lfloor>q\<rfloor>"
proof (cases "enabled config")
  case False
  then show ?thesis by (simp add: query_def)
next
  case True
  show ?thesis
    unfolding query_enabled [OF True] assms(1) slice_last [OF assms(2)] by simp
qed

lemma log_store_bound:
  "length (events svc) \<le> 10000 \<Longrightarrow> length (events (fst (log config svc ev))) \<le> 10000"
  by (simp add: log_def Let_def)

lemma matches_sample:
  "matches (listWhere (noOptions\<lparr>opt_limit := l\<rparr>)) sampleExecution"
  by (simp add: matches_def listWhere_def noOptions_def sampleExecution_def truthy_def)

lemma listReceipts_whole:
  assumes "or_default (opt_limit opts) (Finite 50) = Finite (of_int t)" "0 \<le> t"
    and "or_default (opt_offset opts) (Finite 0) = Finite (of_int s)" "0 \<le> s"
  shows "\<exists>sms. listReceipts rt db opts = Inr sms
       \<and> length sms = min (nat t) (length (filter (matches (listWhere opts)) db) - nat s)"
  using assms by (simp add: listReceipts_def findMany_whole Let_def min.commute)

text \<open>
  C9 (as the spec states it) has a hard maximum that no caller-supplied limit can exceed.
  \<open>listReceipts\<close> hands the caller's limit to \<open>take\<close> as it is: for every bound \<open>M\<close> a
  table of \<open>M + 1\<close> finished executions queried with the limit \<open>M + 1\<close> returns
  \<open>M + 1\<close> summaries.
\<close>

theorem receipt_limit_unbounded_counterexample:
  "\<not> (\<exists>M. \<forall>rt db opts sms. listReceipts rt db opts = Inr sms \<longrightarrow> length sms \<le> M)"
proof
  assume "\<exists>M. \<forall>rt db opts sms. listReceipts rt db opts = Inr sms \<longrightarrow> length sms \<le> M"
  then obtain M where M: "\<And>rt db opts sms. listReceipts rt db opts = Inr sms \<Longrightarrow> length sms \<le> M"
    by blast
  let ?opts = "noOptions\<lparr>opt_limit := Some (Finite (of_int (int (Suc M))))\<rparr>"
  let ?db = "replicate (Suc M) sampleExecution"
  have f: "filter (matches (listWhere ?opts)) ?db = ?db"
    using matches_sample [of "Some (Finite (of_int (int (Suc M))))"] by simp
  have "(of_int (int (Suc M)) :: rat) \<noteq> 0"
    using of_nat_eq_0_iff [where 'a = rat, of "Suc M"] by (simp del: of_nat_Suc)
  then have l: "or_default (opt_limit ?opts) (Finite 50) = Finite (of_int (int (Suc M)))"
    by (simp add: or_default_def falsy_def del: of_nat_Suc of_int_of_nat_eq)
  have o: "or_default (opt_offset ?opts) (Finite 0) = Finite (of_int 0)"
    by (simp add: or_default_def noOptions_def)
  from listReceipts_whole [OF l _ o, of plainRuntime ?db] f
  obtain sms where "listReceipts plainRuntime ?db ?opts = Inr sms" "length sms = Suc M"
    by auto
  with M [of plainRuntime ?db ?opts sms] show False
    by simp
qed

text \<open>
  C9, amended. Neither query changes any state. \<open>listReceipts\<close> hands
  \<open>options.limit || 50\<close> to \<open>take\<close>: that is 50 when the caller gives no limit (or 0, or
  \<open>NaN\<close>) and the caller's number otherwise, whatever it is. When the query succeeds,
  \<open>take\<close> was a whole number and no more summaries come back than its absolute value; for
  a whole limit and offset that are not negative it succeeds with as many summaries as
  there are matching finished executions after the offset, capped by the limit. \<open>query\<close>
  cuts the narrowed events by \<open>slice(-limit)\<close> with \<open>limit = filter.limit || 100\<close> and
  checks nothing: for a limit of at least 1 (100 when the caller gives none, or 0, or
  \<open>NaN\<close>) it returns the last \<open>\<lfloor>limit\<rfloor>\<close> events at most; for a negative whole limit \<open>-n\<close>
  it drops the first \<open>n\<close> events and returns all the others; for a limit between 0 and 1
  it returns them all. It never returns more than the store holds, and \<open>log\<close> keeps the
  store at 10000 events or fewer. Nothing puts a hard maximum on the caller's limit.
\<close>

theorem query_limits:
  "(listReceipts rt db opts = Inr sms \<longrightarrow>
      (\<exists>t. or_default (opt_limit opts) (Finite 50) = Finite (of_int t) \<and> length sms \<le> nat \<bar>t\<bar>))
   \<and> (or_default (opt_limit opts) (Finite 50) = Finite (of_int t) \<and> 0 \<le> t
        \<and> or_default (opt_offset opts) (Finite 0) = Finite (of_int s) \<and> 0 \<le> s \<longrightarrow>
      (\<exists>sms'. listReceipts rt db opts = Inr sms'
         \<and> length sms' = min (nat t) (length (filter (matches (listWhere opts)) db) - nat s)))
   \<and> (opt_limit opts = None \<or> opt_limit opts = Some (Finite 0) \<or> opt_limit opts = Some NaN \<longrightarrow>
        or_default (opt_limit opts) (Finite 50) = Finite 50)
   \<and> (opt_limit opts = Some n \<and> \<not> falsy n \<longrightarrow> or_default (opt_limit opts) (Finite 50) = n)
   \<and> (filter_limit flt = None \<or> filter_limit flt = Some (Finite 0) \<or> filter_limit flt = Some NaN \<longrightarrow>
        length (query config svc flt) \<le> 100)
   \<and> (filter_limit flt = Some (Finite q) \<and> 1 \<le> q \<longrightarrow> length (query config svc flt) \<le> nat \<lfloor>q\<rfloor>)
   \<and> (enabled config \<and> filter_limit flt = Some (Finite (of_int k)) \<and> k < 0 \<longrightarrow>
        query config svc flt = drop (nat (- k)) (narrowed svc flt))
   \<and> (enabled config \<and> filter_limit flt = Some (Finite q) \<and> 0 < q \<and> q < 1 \<longrightarrow>
        query config svc flt = narrowed svc flt)
   \<and> length (query config svc flt) \<le> length (events svc)
   \<and> (length (events svc) \<le> 10000 \<longrightarrow> length (events (fst (log config svc ev))) \<le> 10000)"
proof -
  have a: "\<exists>t. or_default (opt_limit opts) (Finite 50) = Finite (of_int t) \<and> length sms \<le> nat \<bar>t\<bar>"
    if "listReceipts rt db opts = Inr sms"
  proof -
    from listReceipts_Inr [OF that] obtain rows where
        rows: "findMany db (listWhere opts) (or_default (opt_limit opts) (Finite 50))
                  (or_default (opt_offset opts) (Finite 0)) = Inr rows"
        and len: "length sms = length rows"
      by auto
    from findMany_Inr [OF rows] len show ?thesis by auto
  qed
  have b: "\<exists>sms'. listReceipts rt db opts = Inr sms'
         \<and> length sms' = min (nat t) (length (filter (matches (listWhere opts)) db) - nat s)"
    if "or_default (opt_limit opts) (Finite 50) = Finite (of_int t)" "0 \<le> t"
       "or_default (opt_offset opts) (Finite 0) = Finite (of_int s)" "0 \<le> s"
    by (rule listReceipts_whole [OF that])
  have c: "or_default (opt_limit opts) (Finite 50) = Finite 50"
    if "opt_limit opts = None \<or> opt_limit opts = Some (Finite 0) \<or> opt_limit opts = Some NaN"
    using that by (auto simp: or_default_def falsy_def)
  have d: "or_default (opt_limit opts) (Finite 50) = n" if "opt_limit opts = Some n" "\<not> falsy n"
    using that by (simp add: or_default_def)
  have e: "length (query config svc flt) \<le> 100"
    if "filter_limit flt = None \<or> filter_limit flt = Some (Finite 0) \<or> filter_limit flt = Some NaN"
  proof -
    from that have "or_default (filter_limit flt) (Finite 100) = Finite 100"
      by (auto simp: or_default_def falsy_def)
    from length_query_last [OF this, of config svc] show ?thesis by simp
  qed
  have f: "length (query config svc flt) \<le> nat \<lfloor>q\<rfloor>"
    if "filter_limit flt = Some (Finite q)" "1 \<le> q"
  proof -
    from that have "or_default (filter_limit flt) (Finite 100) = Finite q"
      by (auto simp: or_default_def falsy_def)
    from length_query_last [OF this that(2)] show ?thesis .
  qed
  have g: "query config svc flt = drop (nat (- k)) (narrowed svc flt)"
    if "enabled config" "filter_limit flt = Some (Finite (of_int k))" "k < 0"
  proof -
    from that have "or_default (filter_limit flt) (Finite 100) = Finite (of_int k)"
      by (auto simp: or_default_def falsy_def)
    then show ?thesis
      unfolding query_enabled [OF that(1)] by (simp add: slice_negative [OF that(3)])
  qed
  have h: "query config svc flt = narrowed svc flt"
    if "enabled config" "filter_limit flt = Some (Finite q)" "0 < q" "q < 1"
  proof -
    from that have "or_default (filter_limit flt) (Finite 100) = Finite q"
      by (auto simp: or_default_def falsy_def)
    then show ?thesis
      unfolding query_enabled [OF that(1)] by (simp add: slice_fraction [OF that(3,4)])
  qed
  from a b c d e f g h length_query_events [of config svc flt] log_store_bound [of svc config ev]
  show ?thesis by blast
qed

text \<open>
  Sixty finished executions and a store of 120 events. Without a limit 50 receipts and
  100 events come back; a limit of 7 gives 7 and a limit of 60 gives 60; the audit limit
  110 gives 110, the limit -5 gives 115, the limit 1/2 gives all 120.
\<close>

theorem query_limits_witness:
  "map_sum (\<lambda>e. e) length (listReceipts plainRuntime (replicate 60 sampleExecution) noOptions) = Inr 50
   \<and> map_sum (\<lambda>e. e) length (listReceipts plainRuntime (replicate 60 sampleExecution)
        (noOptions\<lparr>opt_limit := Some (Finite 0)\<rparr>)) = Inr 50
   \<and> map_sum (\<lambda>e. e) length (listReceipts plainRuntime (replicate 60 sampleExecution)
        (noOptions\<lparr>opt_limit := Some (Finite 7)\<rparr>)) = Inr 7
   \<and> map_sum (\<lambda>e. e) length (listReceipts plainRuntime (replicate 60 sampleExecution)
        (noOptions\<lparr>opt_limit := Some (Finite 60)\<rparr>)) = Inr 60
   \<and> length (query auditOn \<lparr>events = replicate 120 sampleEvent, eventCounter = 120\<rparr> noFilter) = 100
   \<and> length (query auditOn \<lparr>events = replicate 120 sampleEvent, eventCounter = 120\<rparr>
               (noFilter\<lparr>filter_limit := Some (Finite 110)\<rparr>)) = 110
   \<and> length (query auditOn \<lparr>events = replicate 120 sampleEvent, eventCounter = 120\<rparr>
               (noFilter\<lparr>filter_limit := Some (Finite (- 5))\<rparr>)) = 115
   \<and> length (query auditOn \<lparr>events = replicate 120 sampleEvent, eventCounter = 120\<rparr>
               (noFilter\<lparr>filter_limit := Some (Finite (1 / 2))\<rparr>)) = 120
   \<and> length (query auditOn \<lparr>events = replicate 120 sampleEvent, eventCounter = 120\<rparr>
               (noFilter\<lparr>filter_limit := Some (Finite 5000)\<rparr>)) \<le> 120
   \<and> length (events (fst (log auditOn \<lparr>events = replicate 10000 sampleEvent, eventCounter = 10000\<rparr>
               sampleEvent))) \<le> 10000"
proof -
  let ?db = "replicate 60 sampleExecution"
  let ?svc = "\<lparr>events = replicate 120 sampleEvent, eventCounter = 120\<rparr>"
  let ?full = "\<lparr>events = replicate 10000 sampleEvent, eventCounter = 10000\<rparr>"
  have f: "filter (matches (listWhere (noOptions\<lparr>opt_limit := l\<rparr>))) ?db = ?db" for l
    using matches_sample [of l] by simp
  have n: "noOptions = noOptions\<lparr>opt_limit := None\<rparr>"
    by (simp add: noOptions_def)
  have na: "narrowed ?svc (noFilter\<lparr>filter_limit := l\<rparr>) = replicate 120 sampleEvent" for l
    by (simp add: narrowed_def narrow_def truthy_def noFilter_def Let_def)
  have en: "enabled auditOn"
    by (simp add: auditOn_def)
  have r: "map_sum (\<lambda>e. e) length (listReceipts plainRuntime ?db (noOptions\<lparr>opt_limit := l\<rparr>))
             = Inr (min (nat t) 60)"
    if "or_default l (Finite 50) = Finite (of_int t)" "0 \<le> t" for l t
  proof -
    have "or_default (opt_limit (noOptions\<lparr>opt_limit := l\<rparr>)) (Finite 50) = Finite (of_int t)"
      using that(1) by simp
    moreover have "or_default (opt_offset (noOptions\<lparr>opt_limit := l\<rparr>)) (Finite 0) = Finite (of_int 0)"
      by (simp add: or_default_def noOptions_def)
    ultimately show ?thesis
      using query_limits [THEN conjunct2, THEN conjunct1, rule_format,
          of "noOptions\<lparr>opt_limit := l\<rparr>" t 0 plainRuntime ?db] that(2) f [of l]
      by auto
  qed
  have r1: "map_sum (\<lambda>e. e) length (listReceipts plainRuntime ?db noOptions) = Inr 50"
    using r [of None 50] n by (simp add: or_default_def)
  have r2: "map_sum (\<lambda>e. e) length (listReceipts plainRuntime ?db (noOptions\<lparr>opt_limit := Some (Finite 0)\<rparr>)) = Inr 50"
    using r [of "Some (Finite 0)" 50] by (simp add: or_default_def falsy_def)
  have r3: "map_sum (\<lambda>e. e) length (listReceipts plainRuntime ?db (noOptions\<lparr>opt_limit := Some (Finite 7)\<rparr>)) = Inr 7"
    using r [of "Some (Finite 7)" 7] by (simp add: or_default_def falsy_def)
  have r4: "map_sum (\<lambda>e. e) length (listReceipts plainRuntime ?db (noOptions\<lparr>opt_limit := Some (Finite 60)\<rparr>)) = Inr 60"
    using r [of "Some (Finite 60)" 60] by (simp add: or_default_def falsy_def)
  have q1: "length (query auditOn ?svc noFilter) = 100"
       "length (query auditOn ?svc (noFilter\<lparr>filter_limit := Some (Finite 110)\<rparr>)) = 110"
    by (simp_all add: query_def narrowed_def narrow_def truthy_def number_defs noFilter_def
          auditOn_def Let_def)
  have q2: "length (query auditOn ?svc (noFilter\<lparr>filter_limit := Some (Finite (- 5))\<rparr>)) = 115"
    using query_limits [where config = auditOn and svc = ?svc and k = "- 5"
        and flt = "noFilter\<lparr>filter_limit := Some (Finite (- 5))\<rparr>"] en na
    by simp
  have q3: "length (query auditOn ?svc (noFilter\<lparr>filter_limit := Some (Finite (1 / 2))\<rparr>)) = 120"
    using query_limits [where config = auditOn and svc = ?svc and q = "1 / 2"
        and flt = "noFilter\<lparr>filter_limit := Some (Finite (1 / 2))\<rparr>"] en na
    by simp
  have q4: "length (query auditOn ?svc (noFilter\<lparr>filter_limit := Some (Finite 5000)\<rparr>)) \<le> 120"
    using query_limits [where config = auditOn and svc = ?svc
        and flt = "noFilter\<lparr>filter_limit := Some (Finite 5000)\<rparr>"]
    by simp
  have q5: "length (events (fst (log auditOn ?full sampleEvent))) \<le> 10000"
    using query_limits [where svc = ?full and config = auditOn and ev = sampleEvent]
    by simp
  from r1 r2 r3 r4 q1 q2 q3 q4 q5 show ?thesis by simp
qed

section \<open>Properties of the pipeline orchestrator of the spec\<close>














lemma runSteps_holds: "map step_hold (fst (runSteps exec cb sts)) = map step_hold sts"
  by (induction sts) (auto split: verdict.splits prod.splits)




lemma uniform_same_holds:
  "holdStore s2 = holdStore s1 \<Longrightarrow> uniform s2 p = uniform s1 p"
  by (simp add: uniform_def holdIs_def)



































end
